theory Spec2Isabelle
  imports Main "HOL-Library.AList"
begin

section \<open>JavaScript values as the handlers see them\<close>

text \<open>
  The handlers work on what \<^verbatim>\<open>JSON.parse\<close> returns and on the items of the table.
  An object is an association list of its own properties, in insertion order; a
  property whose value is \<^verbatim>\<open>undefined\<close> is modelled as an absent one
  (\<^verbatim>\<open>JSON.stringify\<close> leaves it out), and \<open>None\<close> of type \<open>json option\<close> stands
  for \<^verbatim>\<open>undefined\<close>. Numbers are integers: the handlers copy a number or test it for
  zero and do nothing else with it.
\<close>

datatype json =
    JNull
  | JBool bool
  | JNum int
  | JStr string
  | JArr "json list"
  | JObj "(string \<times> json) list"

type_synonym obj = "(string \<times> json) list"

datatype js_error = SyntaxError string | TypeError string | ServiceError string

fun message :: "js_error \<Rightarrow> string" where
  "message (SyntaxError m) = m"
| "message (TypeError m) = m"
| "message (ServiceError m) = m"

text \<open>Truthiness, as tested by \<^verbatim>\<open>!x\<close> and \<^verbatim>\<open>x || y\<close>.\<close>

fun truthy :: "json option \<Rightarrow> bool" where
  "truthy None = False"
| "truthy (Some JNull) = False"
| "truthy (Some (JBool b)) = b"
| "truthy (Some (JNum n)) = (n \<noteq> 0)"
| "truthy (Some (JStr s)) = (s \<noteq> [])"
| "truthy (Some (JArr xs)) = True"
| "truthy (Some (JObj fs)) = True"

definition js_or :: "json option \<Rightarrow> json option \<Rightarrow> json option" where
  "js_or a b = (if truthy a then a else b)"

definition nullish :: "json option \<Rightarrow> json option \<Rightarrow> json option" where
  "nullish a b = (if a = None \<or> a = Some JNull then b else a)"

text \<open>
  Reading a named property \<^verbatim>\<open>v.k\<close>. On \<^verbatim>\<open>null\<close> it throws a TypeError; on a
  number, boolean, string or array the names the handlers read (\<^verbatim>\<open>id\<close>,
  \<^verbatim>\<open>name\<close>, \<^verbatim>\<open>title\<close>, ...) are not defined.
\<close>

fun get_prop :: "json \<Rightarrow> string \<Rightarrow> js_error + json option" where
  "get_prop JNull k =
     Inl (TypeError (''Cannot read properties of null (reading '' @ [CHR 0x27] @ k @ [CHR 0x27] @ '')''))"
| "get_prop (JObj fs) k = Inr (map_of fs k)"
| "get_prop v k = Inr None"

text \<open>An object literal; a property given the value \<^verbatim>\<open>undefined\<close> is left out.\<close>

fun obj_lit :: "(string \<times> json option) list \<Rightarrow> obj" where
  "obj_lit [] = []"
| "obj_lit ((k, None) # ps) = obj_lit ps"
| "obj_lit ((k, Some v) # ps) = (k, v) # obj_lit ps"

text \<open>Object spread \<^verbatim>\<open>{...a, ...b}\<close>: the properties of \<open>b\<close> are copied over \<open>a\<close> in order.\<close>

fun assign :: "obj \<Rightarrow> obj \<Rightarrow> obj" where
  "assign a [] = a"
| "assign a ((k, v) # b) = assign (AList.update k v a) b"

subsection \<open>Numbers and dates as text\<close>

definition digit :: "nat \<Rightarrow> char" where
  "digit d = ''0123456789'' ! (d mod 10)"

fun decimal :: "nat \<Rightarrow> string" where
  "decimal n = (if n < 10 then [digit n] else decimal (n div 10) @ [digit n])"

declare decimal.simps [simp del]

definition pad :: "nat \<Rightarrow> nat \<Rightarrow> string" where
  "pad w n = replicate (w - length (decimal n)) (CHR ''0'') @ decimal n"

text \<open>
  \<^verbatim>\<open>new Date(ms).toISOString()\<close> for a time in milliseconds since the epoch: the
  proleptic Gregorian date in UTC, \<^verbatim>\<open>YYYY-MM-DDTHH:mm:ss.sssZ\<close> (six digits and a sign
  for the year beyond 9999).
\<close>

definition civil_from_days :: "nat \<Rightarrow> nat \<times> nat \<times> nat" where
  "civil_from_days z =
     (let z1 = z + 719468;
          era = z1 div 146097;
          doe = z1 mod 146097;
          yoe = (doe + doe div 36524 - doe div 1460 - doe div 146096) div 365;
          doy = doe + yoe div 100 - (365 * yoe + yoe div 4);
          mp = (5 * doy + 2) div 153;
          d = doy - (153 * mp + 2) div 5 + 1;
          m = (if mp < 10 then mp + 3 else mp - 9);
          y = yoe + era * 400 + (if m \<le> 2 then 1 else 0)
      in (y, m, d))"

definition toISOString :: "nat \<Rightarrow> string" where
  "toISOString ms =
     (let (y, m, d) = civil_from_days (ms div 86400000);
          t = ms mod 86400000
      in (if y \<le> 9999 then pad 4 y else ''+'' @ pad 6 y) @ ''-'' @ pad 2 m @ ''-'' @ pad 2 d
         @ ''T'' @ pad 2 (t div 3600000) @ '':'' @ pad 2 (t div 60000 mod 60)
         @ '':'' @ pad 2 (t div 1000 mod 60) @ ''.'' @ pad 3 (t mod 1000) @ ''Z'')"

text \<open>
  String conversion inside a template literal. Lists and objects are rendered as
  \<^verbatim>\<open>Array.prototype.toString\<close> and \<^verbatim>\<open>Object.prototype.toString\<close> do.
\<close>

fun join_commas :: "string list \<Rightarrow> string" where
  "join_commas [] = []"
| "join_commas [s] = s"
| "join_commas (s # t # ss) = s @ '','' @ join_commas (t # ss)"

fun template_str :: "json \<Rightarrow> string" where
  "template_str JNull = ''null''"
| "template_str (JBool b) = (if b then ''true'' else ''false'')"
| "template_str (JNum n) = (if n < 0 then ''-'' @ decimal (nat (- n)) else decimal (nat n))"
| "template_str (JStr s) = s"
| "template_str (JArr xs) =
     join_commas (map (\<lambda>x. if x = JNull then [] else template_str x) xs)"
| "template_str (JObj fs) = ''[object Object]''"

text \<open>
  The own enumerable properties that a rest pattern or a spread copies: the fields of
  an object, the indices of an array or of a string, nothing for a number or a
  boolean. Destructuring \<^verbatim>\<open>null\<close> throws.
\<close>

fun own_props :: "json \<Rightarrow> js_error + obj" where
  "own_props JNull =
     Inl (TypeError (''Cannot destructure '' @ [CHR 0x27] @ ''updates'' @ [CHR 0x27] @ '' as it is null.''))"
| "own_props (JObj fs) = Inr fs"
| "own_props (JArr xs) = Inr (zip (map decimal [0..<length xs]) xs)"
| "own_props (JStr s) = Inr (zip (map decimal [0..<length s]) (map (\<lambda>c. JStr [c]) s))"
| "own_props v = Inr []"

subsection \<open>The request body and \<^verbatim>\<open>JSON.parse\<close>\<close>

text \<open>
  A request body is represented by what \<^verbatim>\<open>JSON.parse\<close> makes of it: \<open>JsonText v\<close> is
  a text that parses to the value \<open>v\<close>, \<open>Malformed m\<close> a non-empty text on which the
  parser throws a SyntaxError with message \<open>m\<close>. The handlers use the body in no other
  way than testing it for emptiness and parsing it.
\<close>

datatype body_text = JsonText json | Malformed string

fun JSON_parse :: "body_text \<Rightarrow> js_error + json" where
  "JSON_parse (JsonText v) = Inr v"
| "JSON_parse (Malformed m) = Inl (SyntaxError m)"

section \<open>The table behind the document client\<close>

text \<open>
  One table with the string partition key \<^verbatim>\<open>id\<close>, as every stack declares it. The
  world also holds the log of the commands sent, the clock in milliseconds, and a
  script that gives, for each coming call, how long it takes and whether it faults
  (an exhausted script means immediate, successful calls). A key that is not a
  non-empty string is rejected by the service. An item is stored as the object that
  \<^verbatim>\<open>JSON.stringify\<close> would show, without the properties that are \<^verbatim>\<open>undefined\<close>, as the
  mocked client of the unit tests takes it.
\<close>

datatype command = ScanCommand | GetCommand json | PutCommand obj | DeleteCommand json

record world =
  items :: "(string \<times> obj) list"
  calls :: "command list"
  script :: "(nat \<times> string option) list"
  clock :: nat

fun key_of :: "json option \<Rightarrow> string option" where
  "key_of (Some (JStr s)) = (if s = [] then None else Some s)"
| "key_of v = None"

definition validation_fault :: js_error where
  "validation_fault = ServiceError ''The provided key element does not match the schema''"

text \<open>
  Sending a command logs it, lets the time of the call pass and tells whether the
  script makes the call fault.
\<close>

definition begin_call :: "command \<Rightarrow> world \<Rightarrow> string option \<times> world" where
  "begin_call c w =
     (case script w of
        [] \<Rightarrow> (None, w\<lparr>calls := calls w @ [c]\<rparr>)
      | (d, f) # rest \<Rightarrow>
          (f, w\<lparr>calls := calls w @ [c], script := rest, clock := clock w + d\<rparr>))"

text \<open>
  The four uses of \<^verbatim>\<open>dynamoDB.send\<close>: the result is \<^verbatim>\<open>Items\<close> for a scan, \<^verbatim>\<open>Item\<close>
  (or \<^verbatim>\<open>undefined\<close>) for a get, nothing of interest for a put or a delete.
\<close>

definition send_scan :: "world \<Rightarrow> (js_error + obj list) \<times> world" where
  "send_scan w =
     (case begin_call ScanCommand w of
        (Some m, w1) \<Rightarrow> (Inl (ServiceError m), w1)
      | (None, w1) \<Rightarrow> (Inr (map snd (items w1)), w1))"

definition send_get :: "json \<Rightarrow> world \<Rightarrow> (js_error + obj option) \<times> world" where
  "send_get k w =
     (case begin_call (GetCommand k) w of
        (Some m, w1) \<Rightarrow> (Inl (ServiceError m), w1)
      | (None, w1) \<Rightarrow>
          (case key_of (Some k) of
             None \<Rightarrow> (Inl validation_fault, w1)
           | Some s \<Rightarrow> (Inr (map_of (items w1) s), w1)))"

definition send_put :: "obj \<Rightarrow> world \<Rightarrow> (js_error + unit) \<times> world" where
  "send_put item w =
     (case begin_call (PutCommand item) w of
        (Some m, w1) \<Rightarrow> (Inl (ServiceError m), w1)
      | (None, w1) \<Rightarrow>
          (case key_of (map_of item ''id'') of
             None \<Rightarrow> (Inl validation_fault, w1)
           | Some s \<Rightarrow> (Inr (), w1\<lparr>items := AList.update s item (items w1)\<rparr>)))"

definition send_delete :: "json \<Rightarrow> world \<Rightarrow> (js_error + unit) \<times> world" where
  "send_delete k w =
     (case begin_call (DeleteCommand k) w of
        (Some m, w1) \<Rightarrow> (Inl (ServiceError m), w1)
      | (None, w1) \<Rightarrow>
          (case key_of (Some k) of
             None \<Rightarrow> (Inl validation_fault, w1)
           | Some s \<Rightarrow> (Inr (), w1\<lparr>items := AList.delete s (items w1)\<rparr>)))"

text \<open>\<^verbatim>\<open>new Date().toISOString()\<close> reads the clock.\<close>

definition now_iso :: "world \<Rightarrow> json" where
  "now_iso w = JStr (toISOString (clock w))"

section \<open>Requests and responses\<close>

datatype text_body = EmptyBody | Stringified json

record event =
  httpMethod :: string
  resource :: string
  path :: string
  pathParameters :: "(string \<times> string) list option"
  rawBody :: "body_text option"

record response =
  statusCode :: nat
  headers :: "(string \<times> string) list"
  body :: text_body

text \<open>
  In an event, \<open>rawBody = None\<close> is a body that is \<^verbatim>\<open>null\<close> or the empty string (both
  falsy). \<^verbatim>\<open>pathParameters?.id\<close> is \<^verbatim>\<open>undefined\<close> when there are no path parameters.
\<close>

definition path_id :: "event \<Rightarrow> string option" where
  "path_id ev = (case pathParameters ev of None \<Rightarrow> None | Some ps \<Rightarrow> map_of ps ''id'')"

definition missing :: "string option \<Rightarrow> bool" where
  "missing s = (s = None \<or> s = Some [])"

definition body_or_empty_object :: "event \<Rightarrow> body_text" where
  "body_or_empty_object ev = (case rawBody ev of None \<Rightarrow> JsonText (JObj []) | Some t \<Rightarrow> t)"

definition message_body :: "string \<Rightarrow> text_body" where
  "message_body m = Stringified (JObj [(''message'', JStr m)])"

definition json_only :: "(string \<times> string) list" where
  "json_only = [(''Content-Type'', ''application/json'')]"

definition json_cors :: "(string \<times> string) list" where
  "json_cors = [(''Content-Type'', ''application/json''), (''Access-Control-Allow-Origin'', ''*'')]"

definition failure :: "nat \<Rightarrow> string \<Rightarrow> response" where
  "failure code m = \<lparr>statusCode = code, headers = json_only, body = message_body m\<rparr>"

definition success :: "nat \<Rightarrow> json \<Rightarrow> response" where
  "success code v = \<lparr>statusCode = code, headers = json_cors, body = Stringified v\<rparr>"

section \<open>The actors handler\<close>

text \<open>
  \<^verbatim>\<open>ActorsController\<close> and \<^verbatim>\<open>handler\<close> of the lab solution. Every method catches
  whatever is thrown inside it and answers 500 with a message of its own.
\<close>

text \<open>A property of a value that is known not to be \<^verbatim>\<open>null\<close>.\<close>

fun field :: "json \<Rightarrow> string \<Rightarrow> json option" where
  "field (JObj fs) k = map_of fs k"
| "field v k = None"

definition actors_listAll :: "world \<Rightarrow> response \<times> world" where
  "actors_listAll w =
     (case send_scan w of
        (Inl e, w1) \<Rightarrow> (failure 500 ''Failed to retrieve actors'', w1)
      | (Inr found, w1) \<Rightarrow>
          (success 200 (JObj [(''actors'', JArr (map JObj found)),
                              (''count'', JNum (int (length found)))]), w1))"

definition actors_getById :: "string \<Rightarrow> world \<Rightarrow> response \<times> world" where
  "actors_getById i w =
     (case send_get (JStr i) w of
        (Inl e, w1) \<Rightarrow> (failure 500 ''Failed to retrieve actor'', w1)
      | (Inr None, w1) \<Rightarrow> (failure 404 (''Actor with id '' @ i @ '' not found''), w1)
      | (Inr (Some it), w1) \<Rightarrow> (success 200 (JObj it), w1))"

text \<open>The object \<^verbatim>\<open>newActor\<close> that create builds from the payload and the time.\<close>

definition new_actor :: "json \<Rightarrow> json \<Rightarrow> obj" where
  "new_actor actor now = obj_lit
     [(''id'', field actor ''id''),
      (''name'', field actor ''name''),
      (''age'', field actor ''age''),
      (''nationality'', field actor ''nationality''),
      (''knownFor'', js_or (field actor ''knownFor'') (Some (JArr []))),
      (''isActive'', nullish (field actor ''isActive'') (Some (JBool True))),
      (''createdAt'', Some now),
      (''updatedAt'', Some now)]"

definition actors_create :: "json \<Rightarrow> world \<Rightarrow> response \<times> world" where
  "actors_create actor w =
     (case get_prop actor ''id'' of
        Inl e \<Rightarrow> (failure 500 ''Failed to create actor'', w)
      | Inr None \<Rightarrow> (failure 400 ''id and name are required fields'', w)
      | Inr (Some k) \<Rightarrow>
          if \<not> truthy (Some k) \<or> \<not> truthy (field actor ''name'')
          then (failure 400 ''id and name are required fields'', w)
          else
            (case send_get k w of
               (Inl e, w1) \<Rightarrow> (failure 500 ''Failed to create actor'', w1)
             | (Inr (Some it), w1) \<Rightarrow>
                 (failure 409 (''Actor with id '' @ template_str k @ '' already exists''), w1)
             | (Inr None, w1) \<Rightarrow>
                 (let now = now_iso w1;
                      newActor = new_actor actor now
                  in case send_put newActor w1 of
                       (Inl e, w2) \<Rightarrow> (failure 500 ''Failed to create actor'', w2)
                     | (Inr u, w2) \<Rightarrow> (success 201 (JObj newActor), w2))))"

text \<open>
  The object \<^verbatim>\<open>updatedActor\<close>: the stored item, then the properties of the payload
  other than \<^verbatim>\<open>id\<close> and \<^verbatim>\<open>createdAt\<close>, then \<^verbatim>\<open>updatedAt\<close>.
\<close>

definition updated_actor :: "obj \<Rightarrow> obj \<Rightarrow> json \<Rightarrow> obj" where
  "updated_actor it ps now =
     (let allowedUpdates = filter (\<lambda>(k, v). k \<noteq> ''id'' \<and> k \<noteq> ''createdAt'') ps
      in AList.update ''updatedAt'' now (assign it allowedUpdates))"

definition actors_update :: "string \<Rightarrow> json \<Rightarrow> world \<Rightarrow> response \<times> world" where
  "actors_update i updates w =
     (case send_get (JStr i) w of
        (Inl e, w1) \<Rightarrow> (failure 500 ''Failed to update actor'', w1)
      | (Inr None, w1) \<Rightarrow> (failure 404 (''Actor with id '' @ i @ '' not found''), w1)
      | (Inr (Some it), w1) \<Rightarrow>
          (case own_props updates of
             Inl e \<Rightarrow> (failure 500 ''Failed to update actor'', w1)
           | Inr ps \<Rightarrow>
               (let updatedActor = updated_actor it ps (now_iso w1)
                in case send_put updatedActor w1 of
                     (Inl e, w2) \<Rightarrow> (failure 500 ''Failed to update actor'', w2)
                   | (Inr u, w2) \<Rightarrow> (success 200 (JObj updatedActor), w2))))"

definition actors_delete :: "string \<Rightarrow> world \<Rightarrow> response \<times> world" where
  "actors_delete i w =
     (case send_get (JStr i) w of
        (Inl e, w1) \<Rightarrow> (failure 500 ''Failed to delete actor'', w1)
      | (Inr None, w1) \<Rightarrow> (failure 404 (''Actor with id '' @ i @ '' not found''), w1)
      | (Inr (Some it), w1) \<Rightarrow>
          (case send_delete (JStr i) w1 of
             (Inl e, w2) \<Rightarrow> (failure 500 ''Failed to delete actor'', w2)
           | (Inr u, w2) \<Rightarrow>
               (\<lparr>statusCode = 204, headers = [(''Access-Control-Allow-Origin'', ''*'')],
                 body = EmptyBody\<rparr>, w2)))"

text \<open>
  The handler: \<open>tableName\<close> is the environment variable \<^verbatim>\<open>TABLE_NAME\<close>; the switch is
  on the text \<^verbatim>\<open>method:resource\<close>; a SyntaxError of \<^verbatim>\<open>JSON.parse\<close> reaches the
  handler's own catch.
\<close>

definition route_key :: "string \<Rightarrow> string \<Rightarrow> string" where
  "route_key method res = method @ '':'' @ res"

definition actors_handler :: "string option \<Rightarrow> event \<Rightarrow> world \<Rightarrow> response \<times> world" where
  "actors_handler tableName ev w =
     (if missing tableName
      then (failure 500 ''TABLE_NAME environment variable not set'', w)
      else
        (let route = route_key (httpMethod ev) (resource ev);
             actorId = path_id ev
         in if route = ''GET:/actors'' then actors_listAll w
            else if route = ''GET:/actors/{id}'' then
              (case actorId of
                 None \<Rightarrow> (failure 400 ''Actor ID is required'', w)
               | Some i \<Rightarrow>
                   if i = [] then (failure 400 ''Actor ID is required'', w)
                   else actors_getById i w)
            else if route = ''POST:/actors'' then
              (case JSON_parse (body_or_empty_object ev) of
                 Inl e \<Rightarrow> (failure 500 ''Internal server error'', w)
               | Inr createData \<Rightarrow> actors_create createData w)
            else if route = ''PUT:/actors/{id}'' then
              (case actorId of
                 None \<Rightarrow> (failure 400 ''Actor ID is required'', w)
               | Some i \<Rightarrow>
                   if i = [] then (failure 400 ''Actor ID is required'', w)
                   else
                     (case JSON_parse (body_or_empty_object ev) of
                        Inl e \<Rightarrow> (failure 500 ''Internal server error'', w)
                      | Inr updateData \<Rightarrow> actors_update i updateData w))
            else if route = ''DELETE:/actors/{id}'' then
              (case actorId of
                 None \<Rightarrow> (failure 400 ''Actor ID is required'', w)
               | Some i \<Rightarrow>
                   if i = [] then (failure 400 ''Actor ID is required'', w)
                   else actors_delete i w)
            else (failure 400 (''Unsupported operation: '' @ httpMethod ev @ '' '' @ resource ev), w)))"

section \<open>The TV shows handler of the L3 stack\<close>

text \<open>
  \<^verbatim>\<open>TVShowsController\<close> and \<^verbatim>\<open>handler\<close> of \<^verbatim>\<open>src/lambda-l3\<close>. The controller
  catches nothing: what a method throws reaches the catch of the handler. The
  responses carry no headers. There is no update, and neither create nor delete
  reads the table first.
\<close>

definition plain :: "nat \<Rightarrow> json \<Rightarrow> response" where
  "plain code v = \<lparr>statusCode = code, headers = [], body = Stringified v\<rparr>"

definition plain_message :: "nat \<Rightarrow> string \<Rightarrow> response" where
  "plain_message code m = plain code (JObj [(''message'', JStr m)])"

definition l3_listAll :: "world \<Rightarrow> (js_error + response) \<times> world" where
  "l3_listAll w =
     (case send_scan w of
        (Inl e, w1) \<Rightarrow> (Inl e, w1)
      | (Inr found, w1) \<Rightarrow> (Inr (plain 200 (JArr (map JObj found))), w1))"

definition l3_getById :: "string \<Rightarrow> world \<Rightarrow> (js_error + response) \<times> world" where
  "l3_getById i w =
     (case send_get (JStr i) w of
        (Inl e, w1) \<Rightarrow> (Inl e, w1)
      | (Inr None, w1) \<Rightarrow> (Inr (plain_message 404 ''TV show not found''), w1)
      | (Inr (Some it), w1) \<Rightarrow> (Inr (plain 200 (JObj it)), w1))"

definition l3_create :: "json \<Rightarrow> world \<Rightarrow> (js_error + response) \<times> world" where
  "l3_create tvShow w =
     (case get_prop tvShow ''id'' of
        Inl e \<Rightarrow> (Inl e, w)
      | Inr k \<Rightarrow>
          if \<not> truthy k \<or> \<not> truthy (field tvShow ''title'')
          then (Inr (plain_message 400 ''ID and title are required''), w)
          else
            (case send_put (obj_lit
                    [(''id'', k),
                     (''title'', field tvShow ''title''),
                     (''genre'', js_or (field tvShow ''genre'') (Some (JStr []))),
                     (''year'', js_or (field tvShow ''year'') (Some JNull)),
                     (''rating'', js_or (field tvShow ''rating'') (Some JNull)),
                     (''createdAt'', Some (now_iso w))]) w of
               (Inl e, w1) \<Rightarrow> (Inl e, w1)
             | (Inr u, w1) \<Rightarrow>
                 (Inr (plain 201 (JObj (obj_lit
                    [(''message'', Some (JStr ''TV show created successfully'')), (''id'', k)]))),
                  w1)))"

definition l3_deleteById :: "string \<Rightarrow> world \<Rightarrow> (js_error + response) \<times> world" where
  "l3_deleteById i w =
     (case send_delete (JStr i) w of
        (Inl e, w1) \<Rightarrow> (Inl e, w1)
      | (Inr u, w1) \<Rightarrow> (Inr (plain_message 200 ''TV show deleted successfully''), w1))"

text \<open>
  The test \<^verbatim>\<open>path.match(/\/tvshows\/[\w-]+/)\<close>: the pattern is not anchored, so it
  looks for \<^verbatim>\<open>/tvshows/\<close> followed by a word character or a hyphen anywhere in the
  path.
\<close>

definition word_or_hyphen :: "char \<Rightarrow> bool" where
  "word_or_hyphen c =
     (c \<in> set ''abcdefghijklmnopqrstuvwxyzABCDEFGHIJKLMNOPQRSTUVWXYZ0123456789_-'')"

definition item_path_here :: "string \<Rightarrow> bool" where
  "item_path_here s =
     (take 9 s = ''/tvshows/'' \<and> (case drop 9 s of [] \<Rightarrow> False | c # cs \<Rightarrow> word_or_hyphen c))"

fun matches_item_path :: "string \<Rightarrow> bool" where
  "matches_item_path [] = False"
| "matches_item_path (c # cs) = (item_path_here (c # cs) \<or> matches_item_path cs)"

definition l3_route :: "event \<Rightarrow> world \<Rightarrow> (js_error + response) \<times> world" where
  "l3_route ev w =
     (if httpMethod ev = ''GET'' \<and> path ev = ''/tvshows'' then l3_listAll w
      else if httpMethod ev = ''GET'' \<and> matches_item_path (path ev) then
        (case path_id ev of
           None \<Rightarrow> (Inr (plain_message 400 ''ID is required''), w)
         | Some i \<Rightarrow>
             if i = [] then (Inr (plain_message 400 ''ID is required''), w) else l3_getById i w)
      else if httpMethod ev = ''POST'' \<and> path ev = ''/tvshows'' then
        (case rawBody ev of
           None \<Rightarrow> (Inr (plain_message 400 ''Request body is required''), w)
         | Some t \<Rightarrow>
             (case JSON_parse t of
                Inl e \<Rightarrow> (Inl e, w)
              | Inr tvShow \<Rightarrow> l3_create tvShow w))
      else if httpMethod ev = ''DELETE'' \<and> matches_item_path (path ev) then
        (case path_id ev of
           None \<Rightarrow> (Inr (plain_message 400 ''ID is required''), w)
         | Some i \<Rightarrow>
             if i = [] then (Inr (plain_message 400 ''ID is required''), w) else l3_deleteById i w)
      else (Inr (plain_message 400 ''Unsupported operation''), w))"

definition l3_handler :: "string option \<Rightarrow> event \<Rightarrow> world \<Rightarrow> response \<times> world" where
  "l3_handler tableName ev w =
     (if missing tableName then (plain_message 500 ''Table name is not configured'', w)
      else
        (case l3_route ev w of
           (Inl e, w1) \<Rightarrow> (plain_message 500 ''Internal server error'', w1)
         | (Inr r, w1) \<Rightarrow> (r, w1)))"

section \<open>The TV shows handler written for the document client of SDK v2\<close>

text \<open>
  \<^verbatim>\<open>TVShowsController\<close> and \<^verbatim>\<open>handler\<close> of the TypeScript variant with create, update
  and delete. The table name is not checked: without it the client rejects every
  call before sending it. The controller catches nothing, and the catch of the
  handler puts the message of the error into the body.
\<close>

definition with_table ::
  "string option \<Rightarrow> (world \<Rightarrow> (js_error + 'a) \<times> world) \<Rightarrow> world \<Rightarrow> (js_error + 'a) \<times> world" where
  "with_table tableName f w =
     (if missing tableName
      then (Inl (ServiceError (''Missing required key '' @ [CHR 0x27] @ ''TableName'' @ [CHR 0x27] @ '' in params'')), w)
      else f w)"

definition typed :: "nat \<Rightarrow> text_body \<Rightarrow> response" where
  "typed code b = \<lparr>statusCode = code, headers = json_only, body = b\<rparr>"

text \<open>
  Assignment to a property \<^verbatim>\<open>v.k = x\<close> in strict mode: it throws on \<^verbatim>\<open>null\<close> and on a
  primitive value; on an array it adds a named property that \<^verbatim>\<open>JSON.stringify\<close> does
  not show.
\<close>

fun typeof :: "json \<Rightarrow> string" where
  "typeof (JStr s) = ''string''"
| "typeof (JNum n) = ''number''"
| "typeof (JBool b) = ''boolean''"
| "typeof v = ''object''"

fun set_prop :: "json \<Rightarrow> string \<Rightarrow> json option \<Rightarrow> js_error + json" where
  "set_prop (JObj fs) k (Some x) = Inr (JObj (AList.update k x fs))"
| "set_prop (JObj fs) k None = Inr (JObj (AList.delete k fs))"
| "set_prop (JArr xs) k x = Inr (JArr xs)"
| "set_prop JNull k x =
     Inl (TypeError (''Cannot set properties of null (setting '' @ [CHR 0x27] @ k @ [CHR 0x27] @ '')''))"
| "set_prop v k x =
     Inl (TypeError (''Cannot create property '' @ [CHR 0x27] @ k @ [CHR 0x27] @ '' on '' @ typeof v
                     @ '' '' @ [CHR 0x27] @ template_str v @ [CHR 0x27]))"

definition ts_listAll :: "string option \<Rightarrow> world \<Rightarrow> (js_error + response) \<times> world" where
  "ts_listAll tn w =
     (case with_table tn send_scan w of
        (Inl e, w1) \<Rightarrow> (Inl e, w1)
      | (Inr found, w1) \<Rightarrow> (Inr (typed 200 (Stringified (JArr (map JObj found)))), w1))"

definition ts_getById :: "string option \<Rightarrow> string \<Rightarrow> world \<Rightarrow> (js_error + response) \<times> world" where
  "ts_getById tn i w =
     (case with_table tn (send_get (JStr i)) w of
        (Inl e, w1) \<Rightarrow> (Inl e, w1)
      | (Inr None, w1) \<Rightarrow> (Inr (typed 404 (message_body ''TV Show not found'')), w1)
      | (Inr (Some it), w1) \<Rightarrow> (Inr (typed 200 (Stringified (JObj it))), w1))"

definition ts_create :: "string option \<Rightarrow> json \<Rightarrow> world \<Rightarrow> (js_error + response) \<times> world" where
  "ts_create tn show w =
     (case get_prop show ''id'' of
        Inl e \<Rightarrow> (Inl e, w)
      | Inr k \<Rightarrow>
          (let now = now_iso w;
               newShow = obj_lit
                 [(''id'', js_or k (Some (JStr (decimal (clock w))))),
                  (''title'', js_or (field show ''title'') (Some (JStr ''Untitled Show''))),
                  (''createdAt'', Some now),
                  (''updatedAt'', Some now),
                  (''genre'', field show ''genre''),
                  (''year'', field show ''year''),
                  (''seasons'', field show ''seasons''),
                  (''rating'', field show ''rating'')]
           in case with_table tn (send_put newShow) w of
                (Inl e, w1) \<Rightarrow> (Inl e, w1)
              | (Inr u, w1) \<Rightarrow> (Inr (typed 201 (Stringified (JObj newShow))), w1)))"

definition ts_update ::
  "string option \<Rightarrow> string \<Rightarrow> json \<Rightarrow> world \<Rightarrow> (js_error + response) \<times> world" where
  "ts_update tn i show w =
     (case with_table tn (send_get (JStr i)) w of
        (Inl e, w1) \<Rightarrow> (Inl e, w1)
      | (Inr None, w1) \<Rightarrow> (Inr (typed 404 (message_body ''TV Show not found'')), w1)
      | (Inr (Some it), w1) \<Rightarrow>
          (case set_prop show ''id'' (Some (JStr i)) of
             Inl e \<Rightarrow> (Inl e, w1)
           | Inr show1 \<Rightarrow>
               (case set_prop show1 ''createdAt'' (map_of it ''createdAt'') of
                  Inl e \<Rightarrow> (Inl e, w1)
                | Inr show2 \<Rightarrow>
                    (case set_prop show2 ''updatedAt'' (Some (now_iso w1)) of
                       Inl e \<Rightarrow> (Inl e, w1)
                     | Inr (JObj fs) \<Rightarrow>
                         (case with_table tn (send_put fs) w1 of
                            (Inl e, w2) \<Rightarrow> (Inl e, w2)
                          | (Inr u, w2) \<Rightarrow> (Inr (typed 200 (Stringified (JObj fs))), w2))
                     | Inr v \<Rightarrow> (Inl validation_fault, w1)))))"

definition ts_delete :: "string option \<Rightarrow> string \<Rightarrow> world \<Rightarrow> (js_error + response) \<times> world" where
  "ts_delete tn i w =
     (case with_table tn (send_get (JStr i)) w of
        (Inl e, w1) \<Rightarrow> (Inl e, w1)
      | (Inr None, w1) \<Rightarrow> (Inr (typed 404 (message_body ''TV Show not found'')), w1)
      | (Inr (Some it), w1) \<Rightarrow>
          (case with_table tn (send_delete (JStr i)) w1 of
             (Inl e, w2) \<Rightarrow> (Inl e, w2)
           | (Inr u, w2) \<Rightarrow> (Inr (typed 204 EmptyBody), w2)))"

definition ts_route :: "string option \<Rightarrow> event \<Rightarrow> world \<Rightarrow> (js_error + response) \<times> world" where
  "ts_route tn ev w =
     (if httpMethod ev = ''GET'' \<and> path ev = ''/tvshows'' then ts_listAll tn w
      else if httpMethod ev = ''GET'' \<and> \<not> missing (path_id ev) then
        (case path_id ev of None \<Rightarrow> ts_getById tn [] w | Some i \<Rightarrow> ts_getById tn i w)
      else if httpMethod ev = ''POST'' \<and> path ev = ''/tvshows'' then
        (case JSON_parse (body_or_empty_object ev) of
           Inl e \<Rightarrow> (Inl e, w)
         | Inr createData \<Rightarrow> ts_create tn createData w)
      else if httpMethod ev = ''PUT'' \<and> \<not> missing (path_id ev) then
        (case JSON_parse (body_or_empty_object ev) of
           Inl e \<Rightarrow> (Inl e, w)
         | Inr updateData \<Rightarrow>
             (case path_id ev of
                None \<Rightarrow> ts_update tn [] updateData w
              | Some i \<Rightarrow> ts_update tn i updateData w))
      else if httpMethod ev = ''DELETE'' \<and> \<not> missing (path_id ev) then
        (case path_id ev of None \<Rightarrow> ts_delete tn [] w | Some i \<Rightarrow> ts_delete tn i w)
      else (Inr (typed 400 (message_body ''Invalid request'')), w))"

definition ts_handler :: "string option \<Rightarrow> event \<Rightarrow> world \<Rightarrow> response \<times> world" where
  "ts_handler tn ev w =
     (case ts_route tn ev w of
        (Inl e, w1) \<Rightarrow>
          (typed 500 (Stringified (JObj [(''message'', JStr ''Internal server error''),
                                         (''error'', JStr (message e))])), w1)
      | (Inr r, w1) \<Rightarrow> (r, w1))"

section \<open>Serving a sequence of requests\<close>

fun serve ::
  "(event \<Rightarrow> world \<Rightarrow> response \<times> world) \<Rightarrow> event list \<Rightarrow> world \<Rightarrow> response list \<times> world" where
  "serve h [] w = ([], w)"
| "serve h (ev # evs) w =
     (case h ev w of (r, w1) \<Rightarrow> (case serve h evs w1 of (rs, w2) \<Rightarrow> (r # rs, w2)))"

section \<open>Notions used in the statements\<close>

text \<open>A world is reliable when no call of its script faults.\<close>

definition reliable :: "world \<Rightarrow> bool" where
  "reliable w = list_all (\<lambda>(d, f). f = None) (script w)"

text \<open>Every item of the table is stored under the value of its \<^verbatim>\<open>id\<close> attribute.\<close>

definition keyed :: "world \<Rightarrow> bool" where
  "keyed w = list_all (\<lambda>(k, it). map_of it ''id'' = Some (JStr k)) (items w)"

text \<open>The world once a command has been logged and its time has passed.\<close>

definition after :: "command \<Rightarrow> world \<Rightarrow> world" where
  "after c w = snd (begin_call c w)"

text \<open>
  A create payload of the declared type: the fields of the \<^verbatim>\<open>Actor\<close> interface other
  than the two timestamps, each of its declared type, with a non-empty \<^verbatim>\<open>id\<close> and
  \<^verbatim>\<open>name\<close>.
\<close>

definition is_string :: "json \<Rightarrow> bool" where
  "is_string v = (case v of JStr s \<Rightarrow> True | _ \<Rightarrow> False)"

definition actor_payload :: "obj \<Rightarrow> bool" where
  "actor_payload fs =
     (list_all (\<lambda>k. k \<in> set [''id'', ''name'', ''age'', ''nationality'', ''knownFor'', ''isActive''])
        (map fst fs)
      \<and> (case map_of fs ''id'' of Some (JStr i) \<Rightarrow> i \<noteq> [] | _ \<Rightarrow> False)
      \<and> (case map_of fs ''name'' of Some (JStr n) \<Rightarrow> n \<noteq> [] | _ \<Rightarrow> False)
      \<and> (case map_of fs ''age'' of None \<Rightarrow> True | Some (JNum n) \<Rightarrow> True | _ \<Rightarrow> False)
      \<and> (case map_of fs ''nationality'' of None \<Rightarrow> True | Some (JStr s) \<Rightarrow> True | _ \<Rightarrow> False)
      \<and> (case map_of fs ''knownFor'' of
            None \<Rightarrow> True | Some (JArr xs) \<Rightarrow> list_all is_string xs | _ \<Rightarrow> False)
      \<and> (case map_of fs ''isActive'' of None \<Rightarrow> True | Some (JBool b) \<Rightarrow> True | _ \<Rightarrow> False))"

text \<open>The fields that create writes, and the ones it always writes.\<close>

definition actor_schema :: "string list" where
  "actor_schema = [''id'', ''name'', ''age'', ''nationality'', ''knownFor'', ''isActive'',
                   ''createdAt'', ''updatedAt'']"

definition actor_always :: "string list" where
  "actor_always = [''id'', ''name'', ''knownFor'', ''isActive'', ''createdAt'', ''updatedAt'']"

text \<open>The five entries of the routing table of the actors handler.\<close>

definition actors_routes :: "(string \<times> string) list" where
  "actors_routes =
     [(''GET'', ''/actors''), (''GET'', ''/actors/{id}''), (''POST'', ''/actors''),
      (''PUT'', ''/actors/{id}''), (''DELETE'', ''/actors/{id}'')]"

text \<open>The messages of the 500 responses of the actors handler.\<close>

definition actors_fault_messages :: "string list" where
  "actors_fault_messages =
     [''TABLE_NAME environment variable not set'', ''Internal server error'',
      ''Failed to retrieve actors'', ''Failed to retrieve actor'', ''Failed to create actor'',
      ''Failed to update actor'', ''Failed to delete actor'']"

text \<open>A field of the object in the body of a response, and a header of a response.\<close>

definition body_field :: "response \<Rightarrow> string \<Rightarrow> json option" where
  "body_field r k = (case body r of Stringified (JObj fs) \<Rightarrow> map_of fs k | _ \<Rightarrow> None)"

definition header :: "response \<Rightarrow> string \<Rightarrow> string option" where
  "header r k = map_of (headers r) k"

text \<open>The responses of the actors handler, by their form.\<close>

definition no_content :: response where
  "no_content =
     \<lparr>statusCode = 204, headers = [(''Access-Control-Allow-Origin'', ''*'')], body = EmptyBody\<rparr>"

definition actors_response :: "response \<Rightarrow> bool" where
  "actors_response r =
     ((\<exists>c m. r = failure c m \<and> (c = 400 \<or> c = 404 \<or> c = 409))
    \<or> (\<exists>m. r = failure 500 m \<and> m \<in> set actors_fault_messages)
    \<or> (\<exists>c v. r = success c v \<and> (c = 200 \<or> c = 201))
    \<or> r = no_content)"

section \<open>Concrete requests and worlds\<close>

definition quiet_world :: world where
  "quiet_world = \<lparr>items = [], calls = [], script = [(5, None), (7, None), (3, None)], clock = 1000\<rparr>"

definition faulty_world :: world where
  "faulty_world =
     \<lparr>items = [], calls = [], script = [(5, Some ''connect ECONNREFUSED 10.0.0.7:443'')],
      clock = 1000\<rparr>"

definition stored_s1 :: obj where
  "stored_s1 = [(''id'', JStr ''s1''), (''title'', JStr ''T''), (''genre'', JStr ''drama''),
                (''createdAt'', JStr ''2023-01-01T00:00:00.000Z'')]"

definition stocked_world :: world where
  "stocked_world =
     \<lparr>items = [(''s1'', stored_s1)], calls = [], script = [(5, None), (7, None)], clock = 1000\<rparr>"

definition actor_a1 :: obj where
  "actor_a1 = [(''id'', JStr ''a1''), (''name'', JStr ''X''), (''age'', JNum 30),
               (''isActive'', JBool False)]"

definition show_s1 :: obj where
  "show_s1 = [(''id'', JStr ''s1''), (''title'', JStr ''X'')]"

definition request ::
  "string \<Rightarrow> string \<Rightarrow> string \<Rightarrow> string option \<Rightarrow> body_text option \<Rightarrow> event" where
  "request m r p i b =
     \<lparr>httpMethod = m, resource = r, path = p,
      pathParameters = (case i of None \<Rightarrow> None | Some s \<Rightarrow> Some [(''id'', s)]), rawBody = b\<rparr>"

definition post_show :: event where
  "post_show = request ''POST'' ''/tvshows'' ''/tvshows'' None (Some (JsonText (JObj show_s1)))"

definition get_show :: event where
  "get_show = request ''GET'' ''/tvshows/{id}'' ''/tvshows/s1'' (Some ''s1'') None"

definition put_show :: event where
  "put_show = request ''PUT'' ''/tvshows/{id}'' ''/tvshows/s1'' (Some ''s1'')
                (Some (JsonText (JObj [(''title'', JStr ''U'')])))"

definition delete_show :: event where
  "delete_show = request ''DELETE'' ''/tvshows/{id}'' ''/tvshows/s1'' (Some ''s1'') None"

definition list_shows :: event where
  "list_shows = request ''GET'' ''/tvshows'' ''/tvshows'' None None"

definition patch_shows :: event where
  "patch_shows = request ''PATCH'' ''/tvshows'' ''/tvshows'' None None"

definition patch_actors :: event where
  "patch_actors = request ''PATCH'' ''/actors'' ''/actors'' None None"

definition post_malformed :: event where
  "post_malformed = request ''POST'' ''/actors'' ''/actors'' None
                      (Some (Malformed ''Unexpected token } in JSON at position 9''))"

definition get_actor :: event where
  "get_actor = request ''GET'' ''/actors/{id}'' ''/actors/a1'' (Some ''a1'') None"

definition stored_a1 :: obj where
  "stored_a1 = [(''id'', JStr ''a1''), (''name'', JStr ''X''), (''age'', JNum 30),
                (''createdAt'', JStr ''2023-01-01T00:00:00.000Z''),
                (''updatedAt'', JStr ''2023-01-01T00:00:00.000Z'')]"

definition cast_world :: world where
  "cast_world =
     \<lparr>items = [(''a1'', stored_a1)], calls = [], script = [(5, None), (7, None)], clock = 1000\<rparr>"

definition actor_extra :: obj where
  "actor_extra = [(''id'', JStr ''a2''), (''name'', JStr ''W''), (''agent'', JStr ''Z'')]"

definition actor_patch :: obj where
  "actor_patch = [(''name'', JStr ''Y''), (''id'', JStr ''zz''), (''createdAt'', JStr ''never''),
                  (''agent'', JStr ''Z'')]"

definition list_actors :: event where
  "list_actors = request ''GET'' ''/actors'' ''/actors'' None None"

text \<open>The runs that the statements below look at.\<close>

definition l3_create_get :: "response list \<times> world" where
  "l3_create_get = serve (l3_handler (Some ''TVShows-L3'')) [post_show, get_show] quiet_world"

definition l3_create_create :: "response list \<times> world" where
  "l3_create_create = serve (l3_handler (Some ''TVShows-L3'')) [post_show, post_show] quiet_world"

definition ts_put :: "response \<times> world" where
  "ts_put = ts_handler (Some ''TVShows'') put_show stocked_world"

definition l3_delete :: "response \<times> world" where
  "l3_delete = l3_handler (Some ''TVShows-L3'') delete_show stocked_world"

definition l3_patch :: "response \<times> world" where
  "l3_patch = l3_handler (Some ''TVShows-L3'') patch_shows quiet_world"

definition actors_post_malformed :: "response \<times> world" where
  "actors_post_malformed = actors_handler (Some ''TVActors'') post_malformed quiet_world"

definition ts_list_faulty :: "response \<times> world" where
  "ts_list_faulty = ts_handler (Some ''TVShows'') list_shows faulty_world"

definition actors_get_absent :: "response \<times> world" where
  "actors_get_absent = actors_handler (Some ''TVActors'') get_actor quiet_world"

section \<open>Properties of the table\<close>

lemma begin_call_reliable:
  "reliable w \<Longrightarrow> begin_call c w = (None, after c w)"
  by (cases "script w") (auto simp: reliable_def begin_call_def after_def)

lemma reliable_after: "reliable w \<Longrightarrow> reliable (after c w)"
  by (cases "script w") (auto simp: reliable_def begin_call_def after_def)

lemma items_after [simp]: "items (after c w) = items w"
  by (cases "script w") (auto simp: begin_call_def after_def)

lemma calls_after [simp]: "calls (after c w) = calls w @ [c]"
  by (cases "script w") (auto simp: begin_call_def after_def)

lemma clock_after: "clock w \<le> clock (after c w)"
  by (cases "script w") (auto simp: begin_call_def after_def)

lemma send_get_reliable:
  "reliable w \<Longrightarrow> i \<noteq> [] \<Longrightarrow>
   send_get (JStr i) w = (Inr (map_of (items w) i), after (GetCommand (JStr i)) w)"
  by (simp add: send_get_def begin_call_reliable)

lemma send_put_reliable:
  "reliable w \<Longrightarrow> map_of item ''id'' = Some (JStr i) \<Longrightarrow> i \<noteq> [] \<Longrightarrow>
   send_put item w =
     (Inr (), (after (PutCommand item) w)\<lparr>items := AList.update i item (items w)\<rparr>)"
  by (simp add: send_put_def begin_call_reliable)

lemma send_delete_reliable:
  "reliable w \<Longrightarrow> i \<noteq> [] \<Longrightarrow>
   send_delete (JStr i) w =
     (Inr (), (after (DeleteCommand (JStr i)) w)\<lparr>items := AList.delete i (items w)\<rparr>)"
  by (simp add: send_delete_def begin_call_reliable)

lemma send_scan_reliable:
  "reliable w \<Longrightarrow> send_scan w = (Inr (map snd (items w)), after ScanCommand w)"
  by (simp add: send_scan_def begin_call_reliable)

section \<open>Objects and the controller of the actors handler\<close>

lemma keys_obj_lit: "fst ` set (obj_lit ps) \<subseteq> fst ` set ps"
  by (induction ps rule: obj_lit.induct) auto

lemma map_of_obj_lit:
  "distinct (map fst ps) \<Longrightarrow> map_of (obj_lit ps) k = (case map_of ps k of Some v \<Rightarrow> v | None \<Rightarrow> None)"
proof (induction ps rule: obj_lit.induct)
  case 1
  then show ?case by simp
next
  case (2 k' ps)
  have "k' \<notin> fst ` set (obj_lit ps)"
    using 2(2) keys_obj_lit [of ps] by auto
  then have "map_of (obj_lit ps) k' = None"
    by (simp add: map_of_eq_None_iff)
  moreover have "map_of ps k' = None"
    using 2(2) by (simp add: map_of_eq_None_iff)
  ultimately show ?case using 2 by simp
next
  case (3 k' v ps)
  then show ?case by simp
qed

lemma map_of_assign:
  "distinct (map fst b) \<Longrightarrow> map_of (assign a b) = map_of a ++ map_of b"
proof (induction b arbitrary: a)
  case Nil
  then show ?case by simp
next
  case (Cons p b)
  obtain k v where p: "p = (k, v)" by (cases p)
  from Cons.prems p have notin: "k \<notin> dom (map_of b)" and d: "distinct (map fst b)"
    by (auto simp: dom_map_of_conv_image_fst)
  have "map_of (assign a (p # b)) = map_of (AList.update k v a) ++ map_of b"
    using Cons.IH [OF d] p by simp
  also have "\<dots> = (map_of a)(k \<mapsto> v) ++ map_of b"
    by (simp only: update_conv')
  also have "\<dots> = map_of a ++ map_of (p # b)"
    using notin p by (auto simp: map_add_def fun_eq_iff split: option.splits)
  finally show ?case .
qed

lemma map_of_allowed:
  "map_of (filter (\<lambda>(k, v). P k) ps) k = (if P k then map_of ps k else None)"
  by (induction ps) (auto simp: map_of_eq_None_iff)

lemma distinct_allowed:
  "distinct (map fst ps) \<Longrightarrow> distinct (map fst (filter Q ps))"
  by (simp add: distinct_map_filter)

lemma map_of_updated_actor:
  assumes "distinct (map fst ps)"
  shows "map_of (updated_actor it ps now) k =
     (if k = ''updatedAt'' then Some now
      else if k = ''id'' \<or> k = ''createdAt'' then map_of it k
      else (case map_of ps k of Some v \<Rightarrow> Some v | None \<Rightarrow> map_of it k))"
  using assms
  by (simp add: updated_actor_def update_conv' map_of_assign distinct_allowed map_of_allowed
      map_add_def)

lemma actors_create_fresh:
  assumes "reliable w" and "map_of fs ''id'' = Some (JStr i)" and "i \<noteq> []"
    and "truthy (map_of fs ''name'')" and "map_of (items w) i = None"
  shows "actors_create (JObj fs) w =
     (success 201 (JObj (new_actor (JObj fs) (now_iso (after (GetCommand (JStr i)) w)))),
      (after (PutCommand (new_actor (JObj fs) (now_iso (after (GetCommand (JStr i)) w))))
         (after (GetCommand (JStr i)) w))
       \<lparr>items := AList.update i (new_actor (JObj fs) (now_iso (after (GetCommand (JStr i)) w)))
                  (items w)\<rparr>)"
proof -
  let ?w1 = "after (GetCommand (JStr i)) w"
  let ?ent = "new_actor (JObj fs) (now_iso ?w1)"
  have id: "map_of ?ent ''id'' = Some (JStr i)"
    using assms(2) by (simp add: new_actor_def)
  have put: "send_put ?ent ?w1 =
      (Inr (), (after (PutCommand ?ent) ?w1)\<lparr>items := AList.update i ?ent (items ?w1)\<rparr>)"
    using send_put_reliable [OF reliable_after [OF assms(1)] id assms(3)] .
  show ?thesis
    using assms put by (simp add: actors_create_def send_get_reliable Let_def)
qed

lemma actors_create_existing:
  assumes "reliable w" and "map_of fs ''id'' = Some (JStr i)" and "i \<noteq> []"
    and "truthy (map_of fs ''name'')" and "map_of (items w) i = Some it"
  shows "actors_create (JObj fs) w =
     (failure 409 (''Actor with id '' @ i @ '' already exists''), after (GetCommand (JStr i)) w)"
  using assms by (simp add: actors_create_def send_get_reliable)

lemma map_of_assign_other:
  "k \<notin> fst ` set b \<Longrightarrow> map_of (assign a b) k = map_of a k"
  by (induction b arbitrary: a) (auto simp: update_conv')

lemma updated_actor_id [simp]:
  "map_of (updated_actor it ps now) ''id'' = map_of it ''id''"
proof -
  have "''id'' \<notin> fst ` set (filter (\<lambda>(k, v). k \<noteq> ''id'' \<and> k \<noteq> ''createdAt'') ps)"
    by auto
  then show ?thesis
    by (simp add: updated_actor_def update_conv' map_of_assign_other)
qed

lemma actors_update_existing:
  assumes "reliable w" and "i \<noteq> []" and "map_of (items w) i = Some it"
    and "map_of it ''id'' = Some (JStr i)"
  shows "actors_update i (JObj ps) w =
     (success 200 (JObj (updated_actor it ps (now_iso (after (GetCommand (JStr i)) w)))),
      (after (PutCommand (updated_actor it ps (now_iso (after (GetCommand (JStr i)) w))))
         (after (GetCommand (JStr i)) w))
       \<lparr>items := AList.update i (updated_actor it ps (now_iso (after (GetCommand (JStr i)) w)))
                  (items w)\<rparr>)"
proof -
  let ?w1 = "after (GetCommand (JStr i)) w"
  let ?ent = "updated_actor it ps (now_iso ?w1)"
  have id: "map_of ?ent ''id'' = Some (JStr i)"
    using assms(4) by simp
  have put: "send_put ?ent ?w1 =
      (Inr (), (after (PutCommand ?ent) ?w1)\<lparr>items := AList.update i ?ent (items ?w1)\<rparr>)"
    using send_put_reliable [OF reliable_after [OF assms(1)] id assms(2)] .
  show ?thesis
    using assms put by (simp add: actors_update_def send_get_reliable Let_def)
qed

lemma keyed_lookup:
  "keyed w \<Longrightarrow> map_of (items w) i = Some it \<Longrightarrow> map_of it ''id'' = Some (JStr i)"
  by (auto simp: keyed_def list_all_iff dest!: map_of_SomeD)

lemma actors_delete_existing:
  assumes "reliable w" and "i \<noteq> []" and "map_of (items w) i = Some it"
  shows "actors_delete i w =
     (\<lparr>statusCode = 204, headers = [(''Access-Control-Allow-Origin'', ''*'')], body = EmptyBody\<rparr>,
      (after (DeleteCommand (JStr i)) (after (GetCommand (JStr i)) w))
        \<lparr>items := AList.delete i (items w)\<rparr>)"
  using assms
  by (simp add: actors_delete_def send_get_reliable send_delete_reliable reliable_after)

lemma reliable_items_update [simp]: "reliable (w\<lparr>items := xs\<rparr>) = reliable w"
  by (simp add: reliable_def)

lemma actors_getById_absent:
  assumes "reliable w" and "i \<noteq> []" and "map_of (items w) i = None"
  shows "actors_getById i w =
     (failure 404 (''Actor with id '' @ i @ '' not found''), after (GetCommand (JStr i)) w)"
  using assms by (simp add: actors_getById_def send_get_reliable)

lemma actors_getById_present:
  assumes "reliable w" and "i \<noteq> []" and "map_of (items w) i = Some it"
  shows "actors_getById i w = (success 200 (JObj it), after (GetCommand (JStr i)) w)"
  using assms by (simp add: actors_getById_def send_get_reliable)

lemma actor_payload_id:
  assumes "actor_payload fs"
  shows "\<exists>i. map_of fs ''id'' = Some (JStr i) \<and> i \<noteq> []"
proof -
  from assms have "case map_of fs ''id'' of Some (JStr i) \<Rightarrow> i \<noteq> [] | _ \<Rightarrow> False"
    by (simp add: actor_payload_def)
  then show ?thesis by (auto split: option.splits json.splits)
qed

lemma actor_payload_name:
  assumes "actor_payload fs"
  shows "truthy (map_of fs ''name'')"
proof -
  from assms have "case map_of fs ''name'' of Some (JStr n) \<Rightarrow> n \<noteq> [] | _ \<Rightarrow> False"
    by (simp add: actor_payload_def)
  then show ?thesis by (auto split: option.splits json.splits)
qed

lemma actor_payload_knownFor:
  assumes "actor_payload fs" and "map_of fs ''knownFor'' = Some v"
  shows "truthy (Some v)"
proof -
  from assms have "case map_of fs ''knownFor'' of
      None \<Rightarrow> True | Some (JArr xs) \<Rightarrow> list_all is_string xs | _ \<Rightarrow> False"
    by (simp add: actor_payload_def)
  with assms(2) show ?thesis by (auto split: json.splits)
qed

lemma actor_payload_isActive:
  assumes "actor_payload fs" and "map_of fs ''isActive'' = Some v"
  shows "v \<noteq> JNull"
proof -
  from assms have "case map_of fs ''isActive'' of
      None \<Rightarrow> True | Some (JBool b) \<Rightarrow> True | _ \<Rightarrow> False"
    by (simp add: actor_payload_def)
  with assms(2) show ?thesis by (auto split: json.splits)
qed

lemma actor_payload_keys:
  assumes "actor_payload fs" and "map_of fs k = Some v"
  shows "k \<in> {''id'', ''name'', ''age'', ''nationality'', ''knownFor'', ''isActive''}"
proof -
  from assms(2) have "(k, v) \<in> set fs"
    by (rule map_of_SomeD)
  then have "k \<in> fst ` set fs"
    by force
  moreover from assms(1) have
    "\<forall>k \<in> fst ` set fs. k \<in> {''id'', ''name'', ''age'', ''nationality'', ''knownFor'', ''isActive''}"
    by (simp add: actor_payload_def list_all_iff)
  ultimately show ?thesis by blast
qed

lemma map_of_new_actor:
  "map_of (new_actor actor now) k =
     (if k = ''id'' then field actor ''id''
      else if k = ''name'' then field actor ''name''
      else if k = ''age'' then field actor ''age''
      else if k = ''nationality'' then field actor ''nationality''
      else if k = ''knownFor'' then js_or (field actor ''knownFor'') (Some (JArr []))
      else if k = ''isActive'' then nullish (field actor ''isActive'') (Some (JBool True))
      else if k = ''createdAt'' then Some now
      else if k = ''updatedAt'' then Some now
      else None)"
  unfolding new_actor_def
  apply (rule trans [OF map_of_obj_lit])
   apply simp
  apply simp
  done

lemma actor_payload_kept:
  assumes "actor_payload fs" and "map_of fs k = Some v"
  shows "map_of (new_actor (JObj fs) now) k = Some v"
proof -
  have kf: "k = ''knownFor'' \<Longrightarrow> truthy (Some v)"
    using actor_payload_knownFor [OF assms(1)] assms(2) by simp
  have ia: "k = ''isActive'' \<Longrightarrow> v \<noteq> JNull"
    using actor_payload_isActive [OF assms(1)] assms(2) by simp
  from actor_payload_keys [OF assms]
  consider "k = ''id''" | "k = ''name''" | "k = ''age''" | "k = ''nationality''"
    | "k = ''knownFor''" | "k = ''isActive''"
    by blast
  then show ?thesis
  proof cases
    case 1
    with assms(2) show ?thesis by (simp add: map_of_new_actor)
  next
    case 2
    with assms(2) show ?thesis by (simp add: map_of_new_actor)
  next
    case 3
    with assms(2) show ?thesis by (simp add: map_of_new_actor)
  next
    case 4
    with assms(2) show ?thesis by (simp add: map_of_new_actor)
  next
    case 5
    with kf assms(2) show ?thesis by (simp add: map_of_new_actor js_or_def)
  next
    case 6
    with ia assms(2) show ?thesis by (simp add: map_of_new_actor nullish_def)
  qed
qed

lemma new_actor_stamps:
  "map_of (new_actor actor now) ''createdAt'' = Some now"
  "map_of (new_actor actor now) ''updatedAt'' = Some now"
  by (simp_all add: map_of_new_actor)

section \<open>Routing and the form of the responses\<close>

lemma route_split:
  "route_key m r = ''GET:/actors'' \<longleftrightarrow> m = ''GET'' \<and> r = ''/actors''"
  "route_key m r = ''GET:/actors/{id}'' \<longleftrightarrow> m = ''GET'' \<and> r = ''/actors/{id}''"
  "route_key m r = ''POST:/actors'' \<longleftrightarrow> m = ''POST'' \<and> r = ''/actors''"
  "route_key m r = ''PUT:/actors/{id}'' \<longleftrightarrow> m = ''PUT'' \<and> r = ''/actors/{id}''"
  "route_key m r = ''DELETE:/actors/{id}'' \<longleftrightarrow> m = ''DELETE'' \<and> r = ''/actors/{id}''"
  by (auto simp: route_key_def append_eq_Cons_conv)

lemma actors_response_failure [simp]:
  "actors_response (failure 400 m)" "actors_response (failure 404 m)"
  "actors_response (failure 409 m)"
  "m \<in> set actors_fault_messages \<Longrightarrow> actors_response (failure 500 m)"
  by (auto simp: actors_response_def)

lemma actors_response_success [simp]:
  "actors_response (success 200 v)" "actors_response (success 201 v)"
  "actors_response \<lparr>statusCode = 204, headers = [(''Access-Control-Allow-Origin'', ''*'')],
     body = EmptyBody\<rparr>"
  by (auto simp: actors_response_def no_content_def)

lemma fault_messages [simp]:
  "''TABLE_NAME environment variable not set'' \<in> set actors_fault_messages"
  "''Internal server error'' \<in> set actors_fault_messages"
  "''Failed to retrieve actors'' \<in> set actors_fault_messages"
  "''Failed to retrieve actor'' \<in> set actors_fault_messages"
  "''Failed to create actor'' \<in> set actors_fault_messages"
  "''Failed to update actor'' \<in> set actors_fault_messages"
  "''Failed to delete actor'' \<in> set actors_fault_messages"
  by (simp_all add: actors_fault_messages_def)

lemma actors_listAll_response: "actors_response (fst (actors_listAll w))"
  by (simp add: actors_listAll_def split: prod.splits sum.splits)

lemma actors_getById_response: "actors_response (fst (actors_getById i w))"
  by (simp add: actors_getById_def split: prod.splits sum.splits option.splits)

lemma actors_create_response: "actors_response (fst (actors_create a w))"
  by (simp add: actors_create_def Let_def split: prod.splits sum.splits option.splits)

lemma actors_update_response: "actors_response (fst (actors_update i u w))"
  by (simp add: actors_update_def Let_def split: prod.splits sum.splits option.splits)

lemma actors_delete_response: "actors_response (fst (actors_delete i w))"
  by (simp add: actors_delete_def split: prod.splits sum.splits option.splits)

lemma actors_handler_response: "actors_response (fst (actors_handler tn ev w))"
  by (simp add: actors_handler_def Let_def actors_listAll_response actors_getById_response
      actors_create_response actors_update_response actors_delete_response
      split: sum.splits option.splits)

lemma field_get_prop: "get_prop a k = Inr v \<Longrightarrow> field a k = v"
  by (cases a) auto

lemma send_put_done:
  assumes "send_put item w = (Inr u, w')"
  shows "\<exists>s. map_of (items w') s = Some item \<and> calls w' = calls w @ [PutCommand item]"
  using assms
  by (auto simp: send_put_def begin_call_def update_conv'
      split: prod.splits option.splits list.splits if_splits)

lemma status_failure [simp]: "statusCode (failure c m) = c"
  by (simp add: failure_def)

lemma actors_create_201:
  assumes "actors_create actor w = (r, w')" and "statusCode r = 201"
  shows "\<exists>now w1. r = success 201 (JObj (new_actor actor now))
      \<and> truthy (field actor ''id'') \<and> truthy (field actor ''name'')
      \<and> send_put (new_actor actor now) w1 = (Inr (), w')"
proof -
  from assms obtain k w1 where g: "get_prop actor ''id'' = Inr (Some k)"
    and tk: "truthy (Some k)" and tn: "truthy (field actor ''name'')"
    and r: "r = success 201 (JObj (new_actor actor (now_iso w1)))"
    and p: "send_put (new_actor actor (now_iso w1)) w1 = (Inr (), w')"
    by (auto simp: actors_create_def Let_def
        split: sum.splits option.splits prod.splits if_splits)
  from field_get_prop [OF g] tk have "truthy (field actor ''id'')"
    by simp
  with tn r p show ?thesis by blast
qed

lemma truthy_Some: "truthy x \<Longrightarrow> \<exists>v. x = Some v"
  by (cases x) auto

lemma new_actor_keys: "fst ` set (new_actor actor now) \<subseteq> set actor_schema"
  using keys_obj_lit [of "[(''id'', field actor ''id''),
      (''name'', field actor ''name''),
      (''age'', field actor ''age''),
      (''nationality'', field actor ''nationality''),
      (''knownFor'', js_or (field actor ''knownFor'') (Some (JArr []))),
      (''isActive'', nullish (field actor ''isActive'') (Some (JBool True))),
      (''createdAt'', Some now),
      (''updatedAt'', Some now)]"]
  by (simp add: new_actor_def actor_schema_def)

lemma has_key: "map_of xs k = Some v \<Longrightarrow> k \<in> fst ` set xs"
  by (force dest: map_of_SomeD)

lemma new_actor_always:
  assumes "truthy (field actor ''id'')" and "truthy (field actor ''name'')"
  shows "set actor_always \<subseteq> fst ` set (new_actor actor now)"
proof -
  let ?e = "new_actor actor now"
  from truthy_Some [OF assms(1)] obtain a where "map_of ?e ''id'' = Some a"
    by (auto simp: map_of_new_actor)
  then have 1: "''id'' \<in> fst ` set ?e" by (rule has_key)
  from truthy_Some [OF assms(2)] obtain b where "map_of ?e ''name'' = Some b"
    by (auto simp: map_of_new_actor)
  then have 2: "''name'' \<in> fst ` set ?e" by (rule has_key)
  have "\<exists>c. map_of ?e ''knownFor'' = Some c"
    by (cases "field actor ''knownFor''") (auto simp: map_of_new_actor js_or_def)
  then have 3: "''knownFor'' \<in> fst ` set ?e" by (auto intro: has_key)
  have "\<exists>c. map_of ?e ''isActive'' = Some c"
    by (cases "field actor ''isActive''") (auto simp: map_of_new_actor nullish_def)
  then have 4: "''isActive'' \<in> fst ` set ?e" by (auto intro: has_key)
  have 5: "''createdAt'' \<in> fst ` set ?e" "''updatedAt'' \<in> fst ` set ?e"
    by (rule has_key [of _ _ now], simp add: map_of_new_actor)+
  from 1 2 3 4 5 show ?thesis
    by (simp add: actor_always_def)
qed

section \<open>The table stays keyed by the id of its items\<close>

lemma list_all_update:
  "P (k, v) \<Longrightarrow> list_all P xs \<Longrightarrow> list_all P (AList.update k v xs)"
  by (induction xs) auto

lemma list_all_delete:
  "list_all P xs \<Longrightarrow> list_all P (AList.delete k xs)"
  by (induction xs) auto

lemma key_of_Some: "key_of v = Some s \<Longrightarrow> v = Some (JStr s)"
  by (cases v rule: key_of.cases) (auto split: if_splits)

lemma keyed_begin_call: "keyed (snd (begin_call c w)) = keyed w"
  by (cases "script w") (auto simp: begin_call_def keyed_def)

lemma keyed_send_get: "keyed w \<Longrightarrow> keyed (snd (send_get k w))"
  using keyed_begin_call [of "GetCommand k" w]
  by (auto simp: send_get_def split: prod.splits option.splits)

lemma keyed_send_scan: "keyed w \<Longrightarrow> keyed (snd (send_scan w))"
  using keyed_begin_call [of ScanCommand w]
  by (auto simp: send_scan_def split: prod.splits option.splits)

lemma keyed_send_put: "keyed w \<Longrightarrow> keyed (snd (send_put item w))"
  using keyed_begin_call [of "PutCommand item" w]
  by (auto simp: send_put_def keyed_def list_all_update dest: key_of_Some
      split: prod.splits option.splits)

lemma keyed_send_delete: "keyed w \<Longrightarrow> keyed (snd (send_delete k w))"
  using keyed_begin_call [of "DeleteCommand k" w]
  by (auto simp: send_delete_def keyed_def list_all_delete split: prod.splits option.splits)

lemma keyed_sent:
  "send_get k w = (g, w') \<Longrightarrow> keyed w \<Longrightarrow> keyed w'"
  "send_scan w = (f, w') \<Longrightarrow> keyed w \<Longrightarrow> keyed w'"
  "send_put item w = (u, w') \<Longrightarrow> keyed w \<Longrightarrow> keyed w'"
  "send_delete k w = (u, w') \<Longrightarrow> keyed w \<Longrightarrow> keyed w'"
  using keyed_send_get [of w k] keyed_send_scan [of w] keyed_send_put [of w item]
    keyed_send_delete [of w k]
  by simp_all

lemma keyed_actors_listAll: "keyed w \<Longrightarrow> keyed (snd (actors_listAll w))"
  by (auto simp: actors_listAll_def split: prod.splits sum.splits intro: keyed_sent)

lemma keyed_actors_getById: "keyed w \<Longrightarrow> keyed (snd (actors_getById i w))"
  by (auto simp: actors_getById_def split: prod.splits sum.splits option.splits
      intro: keyed_sent)

lemma keyed_actors_create: "keyed w \<Longrightarrow> keyed (snd (actors_create a w))"
  by (auto simp: actors_create_def Let_def split: prod.splits sum.splits option.splits
      intro: keyed_sent)

lemma keyed_actors_update: "keyed w \<Longrightarrow> keyed (snd (actors_update i u w))"
  by (auto simp: actors_update_def Let_def split: prod.splits sum.splits option.splits
      intro: keyed_sent)

lemma keyed_actors_delete: "keyed w \<Longrightarrow> keyed (snd (actors_delete i w))"
  by (auto simp: actors_delete_def split: prod.splits sum.splits option.splits
      intro: keyed_sent)

lemma keyed_actors_handler: "keyed w \<Longrightarrow> keyed (snd (actors_handler tn ev w))"
  by (simp add: actors_handler_def Let_def keyed_actors_listAll keyed_actors_getById
      keyed_actors_create keyed_actors_update keyed_actors_delete
      split: sum.splits option.splits)

section \<open>The claims\<close>

text \<open>
  Claim C1, as stated, fails on the L3 TV shows handler: after a create of a new show and
  a get of the same id (201, then 200), the entity returned has a \<^verbatim>\<open>createdAt\<close> and no
  \<^verbatim>\<open>updatedAt\<close>, so the two are not equal.
\<close>

theorem l3_create_then_get_lacks_updatedAt:
  "map statusCode (fst l3_create_get) = [201, 200]
 \<and> body_field (last (fst l3_create_get)) ''createdAt'' = Some (JStr (toISOString 1000))
 \<and> body_field (last (fst l3_create_get)) ''updatedAt'' = None"
  by (simp add: l3_create_get_def quiet_world_def post_show_def get_show_def show_s1_def request_def
      begin_call_def send_get_def send_put_def now_iso_def l3_handler_def l3_route_def
      l3_getById_def l3_create_def plain_def plain_message_def missing_def path_id_def js_or_def
      item_path_here_def word_or_hyphen_def body_field_def)

text \<open>
  Claim C1, for the actors handler: for every payload of the declared type whose id is
  not in the table, when no call faults, create answers 201 and a following get of that
  id answers 200, both with the same entity in the body; the entity has every field of
  the payload with the value supplied, and its \<^verbatim>\<open>createdAt\<close> and \<^verbatim>\<open>updatedAt\<close> are the
  same text, that of a clock reading not earlier than the start of the create.
\<close>

theorem actors_create_then_get:
  assumes "reliable w" and "actor_payload fs" and "map_of fs ''id'' = Some (JStr i)"
    and "map_of (items w) i = None"
  shows "\<exists>ent t.
      statusCode (fst (actors_create (JObj fs) w)) = 201
    \<and> body (fst (actors_create (JObj fs) w)) = Stringified (JObj ent)
    \<and> statusCode (fst (actors_getById i (snd (actors_create (JObj fs) w)))) = 200
    \<and> body (fst (actors_getById i (snd (actors_create (JObj fs) w)))) = Stringified (JObj ent)
    \<and> (\<forall>k v. map_of fs k = Some v \<longrightarrow> map_of ent k = Some v)
    \<and> map_of ent ''createdAt'' = Some (JStr (toISOString t))
    \<and> map_of ent ''updatedAt'' = Some (JStr (toISOString t))
    \<and> clock w \<le> t"
proof -
  let ?w1 = "after (GetCommand (JStr i)) w"
  let ?ent = "new_actor (JObj fs) (now_iso ?w1)"
  from actor_payload_id [OF assms(2)] assms(3) have i: "i \<noteq> []"
    by auto
  note name = actor_payload_name [OF assms(2)]
  note c = actors_create_fresh [OF assms(1) assms(3) i name assms(4)]
  have rel: "reliable (snd (actors_create (JObj fs) w))"
    by (simp add: c reliable_after assms(1))
  have stored: "map_of (items (snd (actors_create (JObj fs) w))) i = Some ?ent"
    by (simp add: c update_conv')
  note g = actors_getById_present [OF rel i stored]
  have "statusCode (fst (actors_create (JObj fs) w)) = 201"
    and "body (fst (actors_create (JObj fs) w)) = Stringified (JObj ?ent)"
    by (simp_all add: c success_def)
  moreover have "statusCode (fst (actors_getById i (snd (actors_create (JObj fs) w)))) = 200"
    and "body (fst (actors_getById i (snd (actors_create (JObj fs) w)))) = Stringified (JObj ?ent)"
    by (simp_all add: g success_def)
  moreover have "\<forall>k v. map_of fs k = Some v \<longrightarrow> map_of ?ent k = Some v"
    using actor_payload_kept [OF assms(2)] by blast
  moreover have "map_of ?ent ''createdAt'' = Some (JStr (toISOString (clock ?w1)))"
    and "map_of ?ent ''updatedAt'' = Some (JStr (toISOString (clock ?w1)))"
    by (simp_all add: new_actor_stamps now_iso_def)
  moreover have "clock w \<le> clock ?w1"
    by (rule clock_after)
  ultimately show ?thesis by blast
qed

text \<open>Claim C1: the statement above at a concrete payload and world.\<close>

theorem actors_create_then_get_witness:
  "reliable quiet_world \<and> actor_payload actor_a1 \<and> map_of actor_a1 ''id'' = Some (JStr ''a1'')
 \<and> map_of (items quiet_world) ''a1'' = None
 \<and> (\<exists>ent t.
      statusCode (fst (actors_create (JObj actor_a1) quiet_world)) = 201
    \<and> body (fst (actors_create (JObj actor_a1) quiet_world)) = Stringified (JObj ent)
    \<and> statusCode (fst (actors_getById ''a1'' (snd (actors_create (JObj actor_a1) quiet_world)))) = 200
    \<and> body (fst (actors_getById ''a1'' (snd (actors_create (JObj actor_a1) quiet_world))))
        = Stringified (JObj ent)
    \<and> (\<forall>k v. map_of actor_a1 k = Some v \<longrightarrow> map_of ent k = Some v)
    \<and> map_of ent ''createdAt'' = Some (JStr (toISOString t))
    \<and> map_of ent ''updatedAt'' = Some (JStr (toISOString t))
    \<and> clock quiet_world \<le> t)"
proof -
  have h1: "reliable quiet_world"
    by (simp add: reliable_def quiet_world_def)
  have h2: "actor_payload actor_a1"
    by (simp add: actor_payload_def actor_a1_def)
  have h3: "map_of actor_a1 ''id'' = Some (JStr ''a1'')"
    by (simp add: actor_a1_def)
  have h4: "map_of (items quiet_world) ''a1'' = None"
    by (simp add: quiet_world_def)
  from h1 h2 h3 h4 actors_create_then_get [OF h1 h2 h3 h4] show ?thesis
    by (intro conjI)
qed

text \<open>
  Claim C2, as stated, fails on the L3 TV shows handler: two creates with the same id
  both answer 201, and the log holds two puts and no get.
\<close>

theorem l3_create_twice_overwrites:
  "map statusCode (fst l3_create_create) = [201, 201]
 \<and> calls (snd l3_create_create)
     = [PutCommand [(''id'', JStr ''s1''), (''title'', JStr ''X''), (''genre'', JStr []),
                    (''year'', JNull), (''rating'', JNull),
                    (''createdAt'', JStr (toISOString 1000))],
        PutCommand [(''id'', JStr ''s1''), (''title'', JStr ''X''), (''genre'', JStr []),
                    (''year'', JNull), (''rating'', JNull),
                    (''createdAt'', JStr (toISOString 1005))]]"
  by (simp add: l3_create_create_def quiet_world_def post_show_def show_s1_def request_def
      begin_call_def send_put_def now_iso_def l3_handler_def l3_route_def l3_create_def plain_def
      plain_message_def missing_def path_id_def js_or_def)

text \<open>
  Claim C2, for the actors handler: for every payload with a non-empty text as id and a
  truthy name, whose id is not in the table, when no call faults, the first create
  answers 201 after a get and a put, and the second create answers 409 with a message
  that names the id, after a get only and without changing the table.
\<close>

theorem actors_create_twice:
  assumes "reliable w" and "map_of fs ''id'' = Some (JStr i)" and "i \<noteq> []"
    and "truthy (map_of fs ''name'')" and "map_of (items w) i = None"
  shows "\<exists>ent.
      statusCode (fst (actors_create (JObj fs) w)) = 201
    \<and> calls (snd (actors_create (JObj fs) w)) = calls w @ [GetCommand (JStr i), PutCommand ent]
    \<and> fst (actors_create (JObj fs) (snd (actors_create (JObj fs) w)))
        = failure 409 (''Actor with id '' @ i @ '' already exists'')
    \<and> calls (snd (actors_create (JObj fs) (snd (actors_create (JObj fs) w))))
        = calls w @ [GetCommand (JStr i), PutCommand ent, GetCommand (JStr i)]
    \<and> items (snd (actors_create (JObj fs) (snd (actors_create (JObj fs) w))))
        = items (snd (actors_create (JObj fs) w))"
proof -
  let ?w1 = "after (GetCommand (JStr i)) w"
  let ?ent = "new_actor (JObj fs) (now_iso ?w1)"
  note c = actors_create_fresh [OF assms]
  have rel: "reliable (snd (actors_create (JObj fs) w))"
    by (simp add: c reliable_after assms(1))
  have stored: "map_of (items (snd (actors_create (JObj fs) w))) i = Some ?ent"
    by (simp add: c update_conv')
  note d = actors_create_existing [OF rel assms(2,3,4) stored]
  have "statusCode (fst (actors_create (JObj fs) w)) = 201"
    by (simp add: c success_def)
  moreover have "calls (snd (actors_create (JObj fs) w))
      = calls w @ [GetCommand (JStr i), PutCommand ?ent]"
    by (simp add: c)
  moreover have "calls (snd (actors_create (JObj fs) (snd (actors_create (JObj fs) w))))
        = calls w @ [GetCommand (JStr i), PutCommand ?ent, GetCommand (JStr i)]"
    by (simp add: d) (simp add: c)
  moreover have "items (snd (actors_create (JObj fs) (snd (actors_create (JObj fs) w))))
        = items (snd (actors_create (JObj fs) w))"
    by (simp add: d)
  moreover note d
  ultimately show ?thesis by (intro exI [of _ ?ent]) simp
qed

text \<open>Claim C2: the statement above at a concrete payload and world.\<close>

theorem actors_create_twice_witness:
  "reliable quiet_world \<and> map_of actor_a1 ''id'' = Some (JStr ''a1'') \<and> ''a1'' \<noteq> []
 \<and> truthy (map_of actor_a1 ''name'') \<and> map_of (items quiet_world) ''a1'' = None
 \<and> statusCode (fst (actors_create (JObj actor_a1) quiet_world)) = 201
 \<and> fst (actors_create (JObj actor_a1) (snd (actors_create (JObj actor_a1) quiet_world)))
     = failure 409 (''Actor with id '' @ ''a1'' @ '' already exists'')"
proof -
  have h1: "reliable quiet_world"
    by (simp add: reliable_def quiet_world_def)
  have h2: "map_of actor_a1 ''id'' = Some (JStr ''a1'')"
    by (simp add: actor_a1_def)
  have h3: "''a1'' \<noteq> []"
    by simp
  have h4: "truthy (map_of actor_a1 ''name'')"
    by (simp add: actor_a1_def)
  have h5: "map_of (items quiet_world) ''a1'' = None"
    by (simp add: quiet_world_def)
  from actors_create_twice [OF h1 h2 h3 h4 h5]
  have "statusCode (fst (actors_create (JObj actor_a1) quiet_world)) = 201"
    and "fst (actors_create (JObj actor_a1) (snd (actors_create (JObj actor_a1) quiet_world)))
     = failure 409 (''Actor with id '' @ ''a1'' @ '' already exists'')"
    by blast+
  with h1 h2 h3 h4 h5 show ?thesis
    by (intro conjI)
qed

text \<open>
  Claim C3, as stated, fails on the TV shows handler with update: a stored field that the
  payload does not mention (\<^verbatim>\<open>genre\<close>) is not retained, the payload replaces the item.
\<close>

theorem ts_update_drops_stored_field:
  "statusCode (fst ts_put) = 200
 \<and> map_of (items stocked_world) ''s1''
     = Some [(''id'', JStr ''s1''), (''title'', JStr ''T''), (''genre'', JStr ''drama''),
             (''createdAt'', JStr ''2023-01-01T00:00:00.000Z'')]
 \<and> map_of (items (snd ts_put)) ''s1''
     = Some [(''title'', JStr ''U''), (''id'', JStr ''s1''),
             (''createdAt'', JStr ''2023-01-01T00:00:00.000Z''),
             (''updatedAt'', JStr (toISOString 1005))]
 \<and> body_field (fst ts_put) ''genre'' = None"
  by (simp add: ts_put_def stocked_world_def stored_s1_def put_show_def request_def
      begin_call_def send_get_def send_put_def now_iso_def ts_handler_def ts_route_def
      ts_update_def with_table_def typed_def missing_def path_id_def body_or_empty_object_def
      body_field_def)

text \<open>
  Claim C3, for the actors handler: for every item stored under the id and every payload
  object, when no call faults, update answers 200 with the merged entity, which it has
  put into the table under the id after one get. In the merged entity a field other
  than \<^verbatim>\<open>id\<close>, \<^verbatim>\<open>createdAt\<close> and \<^verbatim>\<open>updatedAt\<close> has the value of the payload if the payload
  has it and the stored value otherwise; \<^verbatim>\<open>id\<close> is the path id and \<^verbatim>\<open>createdAt\<close> the
  stored one, whatever the payload says; \<^verbatim>\<open>updatedAt\<close> is the text of a clock reading
  taken during the update.
\<close>

theorem actors_update_merges:
  assumes "reliable w" and "keyed w" and "i \<noteq> []" and "map_of (items w) i = Some old"
    and "distinct (map fst ps)"
  shows "\<exists>merged t.
      statusCode (fst (actors_update i (JObj ps) w)) = 200
    \<and> body (fst (actors_update i (JObj ps) w)) = Stringified (JObj merged)
    \<and> calls (snd (actors_update i (JObj ps) w))
        = calls w @ [GetCommand (JStr i), PutCommand merged]
    \<and> map_of (items (snd (actors_update i (JObj ps) w))) i = Some merged
    \<and> (\<forall>k. k \<notin> {''id'', ''createdAt'', ''updatedAt''} \<longrightarrow>
           map_of merged k = (case map_of ps k of Some v \<Rightarrow> Some v | None \<Rightarrow> map_of old k))
    \<and> map_of merged ''id'' = Some (JStr i)
    \<and> map_of merged ''createdAt'' = map_of old ''createdAt''
    \<and> map_of merged ''updatedAt'' = Some (JStr (toISOString t))
    \<and> clock w \<le> t \<and> t \<le> clock (snd (actors_update i (JObj ps) w))"
proof -
  let ?w1 = "after (GetCommand (JStr i)) w"
  let ?m = "updated_actor old ps (now_iso ?w1)"
  have oid: "map_of old ''id'' = Some (JStr i)"
    using keyed_lookup [OF assms(2,4)] .
  note u = actors_update_existing [OF assms(1,3,4) oid, of ps]
  have "statusCode (fst (actors_update i (JObj ps) w)) = 200"
    and "body (fst (actors_update i (JObj ps) w)) = Stringified (JObj ?m)"
    by (simp_all add: u success_def)
  moreover have "calls (snd (actors_update i (JObj ps) w))
      = calls w @ [GetCommand (JStr i), PutCommand ?m]"
    by (simp add: u)
  moreover have "map_of (items (snd (actors_update i (JObj ps) w))) i = Some ?m"
    by (simp add: u update_conv')
  moreover have "\<forall>k. k \<notin> {''id'', ''createdAt'', ''updatedAt''} \<longrightarrow>
      map_of ?m k = (case map_of ps k of Some v \<Rightarrow> Some v | None \<Rightarrow> map_of old k)"
    by (simp add: map_of_updated_actor [OF assms(5)])
  moreover have "map_of ?m ''id'' = Some (JStr i)"
    by (simp add: oid)
  moreover have "map_of ?m ''createdAt'' = map_of old ''createdAt''"
    by (simp add: map_of_updated_actor [OF assms(5)])
  moreover have "map_of ?m ''updatedAt'' = Some (JStr (toISOString (clock ?w1)))"
    by (simp add: map_of_updated_actor [OF assms(5)] now_iso_def)
  moreover have "clock w \<le> clock ?w1"
    by (rule clock_after)
  moreover have "clock ?w1 \<le> clock (snd (actors_update i (JObj ps) w))"
    by (simp add: u clock_after)
  ultimately show ?thesis by blast
qed

text \<open>Claim C3: the statement above at a concrete stored actor and payload.\<close>

theorem actors_update_merges_witness:
  "reliable cast_world \<and> keyed cast_world \<and> ''a1'' \<noteq> []
 \<and> map_of (items cast_world) ''a1'' = Some stored_a1 \<and> distinct (map fst actor_patch)
 \<and> (\<exists>merged.
      statusCode (fst (actors_update ''a1'' (JObj actor_patch) cast_world)) = 200
    \<and> body (fst (actors_update ''a1'' (JObj actor_patch) cast_world)) = Stringified (JObj merged)
    \<and> map_of (items (snd (actors_update ''a1'' (JObj actor_patch) cast_world))) ''a1'' = Some merged
    \<and> map_of merged ''id'' = Some (JStr ''a1'')
    \<and> map_of merged ''createdAt'' = map_of stored_a1 ''createdAt'')"
proof -
  have h1: "reliable cast_world"
    by (simp add: reliable_def cast_world_def)
  have h2: "keyed cast_world"
    by (simp add: keyed_def cast_world_def stored_a1_def)
  have h3: "''a1'' \<noteq> []"
    by simp
  have h4: "map_of (items cast_world) ''a1'' = Some stored_a1"
    by (simp add: cast_world_def)
  have h5: "distinct (map fst actor_patch)"
    by (simp add: actor_patch_def)
  from actors_update_merges [OF h1 h2 h3 h4 h5]
  have "\<exists>merged.
      statusCode (fst (actors_update ''a1'' (JObj actor_patch) cast_world)) = 200
    \<and> body (fst (actors_update ''a1'' (JObj actor_patch) cast_world)) = Stringified (JObj merged)
    \<and> map_of (items (snd (actors_update ''a1'' (JObj actor_patch) cast_world))) ''a1'' = Some merged
    \<and> map_of merged ''id'' = Some (JStr ''a1'')
    \<and> map_of merged ''createdAt'' = map_of stored_a1 ''createdAt''"
    by blast
  with h1 h2 h3 h4 h5 show ?thesis
    by (intro conjI)
qed

text \<open>
  Claim C4 (actors handler): for every id that is not in the table, when the call does
  not fault, update and delete each answer 404, leave the table as it is, and send
  nothing but the one get: no put and no delete.
\<close>

theorem actors_absent_id_no_write:
  assumes "reliable w" and "i \<noteq> []" and "map_of (items w) i = None"
  shows "statusCode (fst (actors_update i p w)) = 404
       \<and> items (snd (actors_update i p w)) = items w
       \<and> calls (snd (actors_update i p w)) = calls w @ [GetCommand (JStr i)]
       \<and> statusCode (fst (actors_delete i w)) = 404
       \<and> items (snd (actors_delete i w)) = items w
       \<and> calls (snd (actors_delete i w)) = calls w @ [GetCommand (JStr i)]"
  using assms
  by (simp add: actors_update_def actors_delete_def send_get_reliable failure_def)

text \<open>Claim C4: the statement above at a concrete id and world.\<close>

theorem actors_absent_id_no_write_witness:
  "reliable quiet_world \<and> ''a1'' \<noteq> [] \<and> map_of (items quiet_world) ''a1'' = None
 \<and> statusCode (fst (actors_update ''a1'' (JObj actor_patch) quiet_world)) = 404
 \<and> items (snd (actors_update ''a1'' (JObj actor_patch) quiet_world)) = items quiet_world
 \<and> calls (snd (actors_update ''a1'' (JObj actor_patch) quiet_world))
     = calls quiet_world @ [GetCommand (JStr ''a1'')]
 \<and> statusCode (fst (actors_delete ''a1'' quiet_world)) = 404
 \<and> items (snd (actors_delete ''a1'' quiet_world)) = items quiet_world
 \<and> calls (snd (actors_delete ''a1'' quiet_world)) = calls quiet_world @ [GetCommand (JStr ''a1'')]"
proof -
  have h1: "reliable quiet_world"
    by (simp add: reliable_def quiet_world_def)
  have h2: "''a1'' \<noteq> []"
    by simp
  have h3: "map_of (items quiet_world) ''a1'' = None"
    by (simp add: quiet_world_def)
  from h1 h2 h3 actors_absent_id_no_write [OF h1 h2 h3, of "JObj actor_patch"] show ?thesis
    by (intro conjI) blast+
qed

text \<open>
  Claim C5, as stated, fails on the L3 TV shows handler: the delete of a stored show
  answers 200 with a message in the body, not 204 with an empty body.
\<close>

theorem l3_delete_answers_200:
  "map_of (items stocked_world) ''s1'' \<noteq> None
 \<and> statusCode (fst l3_delete) = 200
 \<and> body (fst l3_delete) = Stringified (JObj [(''message'', JStr ''TV show deleted successfully'')])"
  by (simp add: l3_delete_def stocked_world_def stored_s1_def delete_show_def request_def
      begin_call_def send_delete_def l3_handler_def l3_route_def l3_deleteById_def plain_def
      plain_message_def missing_def path_id_def item_path_here_def word_or_hyphen_def)

text \<open>
  Claim C5, amended: for every id in the table, when no call faults, the delete of the
  actors controller answers 204 with an empty body, and that of the L3 controller 200
  with a fixed message; in both a following get of the id answers 404.
\<close>

theorem delete_existing:
  assumes "reliable w" and "i \<noteq> []" and "map_of (items w) i = Some it"
  shows "statusCode (fst (actors_delete i w)) = 204
    \<and> body (fst (actors_delete i w)) = EmptyBody
    \<and> statusCode (fst (actors_getById i (snd (actors_delete i w)))) = 404
    \<and> fst (l3_deleteById i w) = Inr (plain_message 200 ''TV show deleted successfully'')
    \<and> fst (l3_getById i (snd (l3_deleteById i w))) = Inr (plain_message 404 ''TV show not found'')"
proof -
  note d = actors_delete_existing [OF assms]
  have rel: "reliable (snd (actors_delete i w))"
    by (simp add: d reliable_after assms(1))
  have gone: "map_of (items (snd (actors_delete i w))) i = None"
    by (simp add: d delete_conv')
  have "statusCode (fst (actors_getById i (snd (actors_delete i w)))) = 404"
    by (simp add: actors_getById_absent [OF rel assms(2) gone] failure_def)
  moreover have "fst (l3_deleteById i w) = Inr (plain_message 200 ''TV show deleted successfully'')"
    using assms by (simp add: l3_deleteById_def send_delete_reliable)
  moreover have "fst (l3_getById i (snd (l3_deleteById i w)))
      = Inr (plain_message 404 ''TV show not found'')"
    using assms
    by (simp add: l3_deleteById_def l3_getById_def send_delete_reliable send_get_reliable
        reliable_after delete_conv')
  ultimately show ?thesis by (simp add: d)
qed

text \<open>Claim C5: the statement above at a concrete id and world.\<close>

theorem delete_existing_witness:
  "reliable stocked_world \<and> ''s1'' \<noteq> [] \<and> map_of (items stocked_world) ''s1'' = Some stored_s1
 \<and> statusCode (fst (actors_delete ''s1'' stocked_world)) = 204
 \<and> body (fst (actors_delete ''s1'' stocked_world)) = EmptyBody
 \<and> statusCode (fst (actors_getById ''s1'' (snd (actors_delete ''s1'' stocked_world)))) = 404
 \<and> fst (l3_deleteById ''s1'' stocked_world)
     = Inr (plain_message 200 ''TV show deleted successfully'')
 \<and> fst (l3_getById ''s1'' (snd (l3_deleteById ''s1'' stocked_world)))
     = Inr (plain_message 404 ''TV show not found'')"
proof -
  have h1: "reliable stocked_world"
    by (simp add: reliable_def stocked_world_def)
  have h2: "''s1'' \<noteq> []"
    by simp
  have h3: "map_of (items stocked_world) ''s1'' = Some stored_s1"
    by (simp add: stocked_world_def)
  from h1 h2 h3 delete_existing [OF h1 h2 h3] show ?thesis
    by (intro conjI) blast+
qed

text \<open>
  Claim C6, as stated, fails on the L3 TV shows handler: for \<^verbatim>\<open>PATCH /tvshows\<close> the answer
  is 400 with the message \<^verbatim>\<open>Unsupported operation\<close>, which names neither the method nor
  the path.
\<close>

theorem l3_unmatched_message_is_fixed:
  "l3_patch = (plain_message 400 ''Unsupported operation'', quiet_world)"
  by (simp add: l3_patch_def quiet_world_def patch_shows_def request_def l3_handler_def
      l3_route_def missing_def)

text \<open>
  Claim C6, for the actors handler: with the table name set, for every request whose
  method and resource are not one of the five routes, the answer is 400 with the message
  \<^verbatim>\<open>Unsupported operation:\<close> followed by the method and the resource, and the world is
  unchanged, so that nothing was sent to the table.
\<close>

theorem actors_unmatched_route:
  assumes "\<not> missing tableName" and "(httpMethod ev, resource ev) \<notin> set actors_routes"
  shows "actors_handler tableName ev w =
     (failure 400 (''Unsupported operation: '' @ httpMethod ev @ '' '' @ resource ev), w)"
  using assms
  by (auto simp: actors_handler_def actors_routes_def route_split Let_def)

text \<open>Claim C6: the statement above at \<^verbatim>\<open>PATCH /actors\<close>.\<close>

theorem actors_unmatched_route_witness:
  "\<not> missing (Some ''TVActors'')
 \<and> (httpMethod patch_actors, resource patch_actors) \<notin> set actors_routes
 \<and> actors_handler (Some ''TVActors'') patch_actors quiet_world
     = (failure 400
          (''Unsupported operation: '' @ httpMethod patch_actors @ '' '' @ resource patch_actors),
        quiet_world)"
proof -
  have h1: "\<not> missing (Some ''TVActors'')"
    by (simp add: missing_def)
  have h2: "(httpMethod patch_actors, resource patch_actors) \<notin> set actors_routes"
    by (simp add: patch_actors_def request_def actors_routes_def)
  from h1 h2 actors_unmatched_route [OF h1 h2, of quiet_world] show ?thesis
    by (intro conjI)
qed

text \<open>
  Claim C7, as stated, fails: a \<^verbatim>\<open>POST /actors\<close> whose body is not well-formed JSON is
  answered with 500, not 400.
\<close>

theorem actors_malformed_body_is_500:
  "statusCode (fst actors_post_malformed) = 500"
  by (simp add: actors_post_malformed_def quiet_world_def post_malformed_def request_def
      actors_handler_def route_key_def missing_def body_or_empty_object_def failure_def)

text \<open>
  Claim C7, amended: with the table name set, for every \<^verbatim>\<open>POST /actors\<close> and every
  \<^verbatim>\<open>PUT /actors/{id}\<close> with an id whose body is not well-formed JSON, the answer is 500 with
  the fixed message \<^verbatim>\<open>Internal server error\<close> and nothing else in the body, and the
  world is unchanged.
\<close>

theorem actors_malformed_body:
  assumes "\<not> missing tableName" and "rawBody ev = Some (Malformed m)"
    and "httpMethod ev = ''POST'' \<and> resource ev = ''/actors''
       \<or> httpMethod ev = ''PUT'' \<and> resource ev = ''/actors/{id}'' \<and> \<not> missing (path_id ev)"
  shows "actors_handler tableName ev w = (failure 500 ''Internal server error'', w)"
  using assms
  by (auto simp: actors_handler_def Let_def body_or_empty_object_def missing_def route_split
      split: option.splits)

text \<open>Claim C7: the statement above at a concrete malformed request.\<close>

theorem actors_malformed_body_witness:
  "\<not> missing (Some ''TVActors'')
 \<and> rawBody post_malformed = Some (Malformed ''Unexpected token } in JSON at position 9'')
 \<and> (httpMethod post_malformed = ''POST'' \<and> resource post_malformed = ''/actors''
      \<or> httpMethod post_malformed = ''PUT'' \<and> resource post_malformed = ''/actors/{id}''
         \<and> \<not> missing (path_id post_malformed))
 \<and> actors_handler (Some ''TVActors'') post_malformed quiet_world
     = (failure 500 ''Internal server error'', quiet_world)"
proof -
  have h1: "\<not> missing (Some ''TVActors'')"
    by (simp add: missing_def)
  have h2: "rawBody post_malformed = Some (Malformed ''Unexpected token } in JSON at position 9'')"
    by (simp add: post_malformed_def request_def)
  have h3: "httpMethod post_malformed = ''POST'' \<and> resource post_malformed = ''/actors''
      \<or> httpMethod post_malformed = ''PUT'' \<and> resource post_malformed = ''/actors/{id}''
         \<and> \<not> missing (path_id post_malformed)"
    by (simp add: post_malformed_def request_def)
  from h1 h2 h3 actors_malformed_body [OF h1 h2 h3, of quiet_world] show ?thesis
    by (intro conjI)
qed

text \<open>
  Claim C8, as stated, fails on the TV shows handler with update: when the scan faults,
  the body of the 500 response carries the message of the fault in its \<^verbatim>\<open>error\<close> field.
\<close>

theorem ts_fault_detail_in_body:
  "statusCode (fst ts_list_faulty) = 500
 \<and> body_field (fst ts_list_faulty) ''error'' = Some (JStr ''connect ECONNREFUSED 10.0.0.7:443'')"
  by (simp add: ts_list_faulty_def faulty_world_def list_shows_def request_def begin_call_def
      send_scan_def ts_handler_def ts_route_def ts_listAll_def with_table_def typed_def
      missing_def body_field_def)

text \<open>
  Claim C8, for the actors handler: the body of every 500 response is one of seven fixed
  messages, whatever the fault was.
\<close>

theorem actors_server_fault_generic:
  assumes "statusCode (fst (actors_handler tableName ev w)) = 500"
  shows "\<exists>m \<in> set actors_fault_messages. body (fst (actors_handler tableName ev w)) = message_body m"
  using actors_handler_response [of tableName ev w] assms
  by (auto simp: actors_response_def failure_def success_def no_content_def)

text \<open>Claim C8: the statement above at a list request whose scan faults.\<close>

theorem actors_server_fault_generic_witness:
  "statusCode (fst (actors_handler (Some ''TVActors'') list_actors faulty_world)) = 500
 \<and> (\<exists>m \<in> set actors_fault_messages.
       body (fst (actors_handler (Some ''TVActors'') list_actors faulty_world)) = message_body m)"
proof -
  have h1: "statusCode (fst (actors_handler (Some ''TVActors'') list_actors faulty_world)) = 500"
    by (simp add: faulty_world_def list_actors_def request_def begin_call_def send_scan_def
        actors_handler_def actors_listAll_def route_key_def missing_def failure_def)
  from h1 actors_server_fault_generic [OF h1] show ?thesis
    by (intro conjI)
qed

text \<open>
  Claim C9, as stated, fails on the actors handler: the 404 response of a get has no
  \<^verbatim>\<open>Access-Control-Allow-Origin\<close> header.
\<close>

theorem actors_not_found_lacks_cors:
  "statusCode (fst actors_get_absent) = 404
 \<and> header (fst actors_get_absent) ''Access-Control-Allow-Origin'' = None"
  by (simp add: actors_get_absent_def quiet_world_def get_actor_def request_def begin_call_def
      send_get_def actors_handler_def actors_getById_def route_key_def missing_def path_id_def
      failure_def json_only_def header_def)

text \<open>
  Claim C9, amended: every response of the actors handler with a non-empty body has
  \<^verbatim>\<open>Content-Type: application/json\<close>; it has \<^verbatim>\<open>Access-Control-Allow-Origin: *\<close> exactly
  when its status is 200, 201 or 204, and no such header exactly when its status is 400,
  404, 409 or 500.
\<close>

theorem actors_headers:
  "(body (fst (actors_handler tableName ev w)) \<noteq> EmptyBody \<longrightarrow>
      header (fst (actors_handler tableName ev w)) ''Content-Type'' = Some ''application/json'')
 \<and> (header (fst (actors_handler tableName ev w)) ''Access-Control-Allow-Origin'' = Some ''*''
      \<longleftrightarrow> statusCode (fst (actors_handler tableName ev w)) \<in> {200, 201, 204})
 \<and> (header (fst (actors_handler tableName ev w)) ''Access-Control-Allow-Origin'' = None
      \<longleftrightarrow> statusCode (fst (actors_handler tableName ev w)) \<in> {400, 404, 409, 500})"
  using actors_handler_response [of tableName ev w]
  by (auto simp: actors_response_def failure_def success_def no_content_def header_def
      json_only_def json_cors_def)

text \<open>Claim C9: the statement above at a get of an id that is not in the table.\<close>

theorem actors_headers_witness:
  "body (fst (actors_handler (Some ''TVActors'') get_actor quiet_world)) \<noteq> EmptyBody
 \<and> header (fst (actors_handler (Some ''TVActors'') get_actor quiet_world)) ''Content-Type''
     = Some ''application/json''
 \<and> statusCode (fst (actors_handler (Some ''TVActors'') get_actor quiet_world)) \<in> {400, 404, 409, 500}
 \<and> header (fst (actors_handler (Some ''TVActors'') get_actor quiet_world))
      ''Access-Control-Allow-Origin'' = None"
proof -
  have h1: "body (fst (actors_handler (Some ''TVActors'') get_actor quiet_world)) \<noteq> EmptyBody"
    by (simp add: quiet_world_def get_actor_def request_def begin_call_def send_get_def
        actors_handler_def actors_getById_def route_key_def missing_def path_id_def failure_def
        message_body_def)
  have h2: "statusCode (fst (actors_handler (Some ''TVActors'') get_actor quiet_world))
      \<in> {400, 404, 409, 500}"
    by (simp add: quiet_world_def get_actor_def request_def begin_call_def send_get_def
        actors_handler_def actors_getById_def route_key_def missing_def path_id_def failure_def
        message_body_def)
  from h1 h2 actors_headers [of "Some ''TVActors''" get_actor quiet_world] show ?thesis
    by blast
qed

text \<open>
  Claim C10 (actors handler): whenever create answers 201, the entity in the body is the
  one stored; its fields are among the eight declared ones (so every other field of the
  payload is dropped) and include \<^verbatim>\<open>id\<close>, \<^verbatim>\<open>name\<close>, \<^verbatim>\<open>knownFor\<close>, \<^verbatim>\<open>isActive\<close> and the
  two timestamps; \<^verbatim>\<open>knownFor\<close> is the empty list unless the payload gives a truthy
  value, \<^verbatim>\<open>isActive\<close> is true unless the payload gives a value other than null. Update, in
  contrast, stores any field of the payload other than \<^verbatim>\<open>id\<close>, \<^verbatim>\<open>createdAt\<close> and
  \<^verbatim>\<open>updatedAt\<close> as it is given.
\<close>

theorem actors_create_schema_only:
  assumes "actors_create actor w = (r, w')" and "statusCode r = 201"
  shows "\<exists>ent s.
      body r = Stringified (JObj ent)
    \<and> map_of (items w') s = Some ent
    \<and> fst ` set ent \<subseteq> set actor_schema
    \<and> set actor_always \<subseteq> fst ` set ent
    \<and> map_of ent ''knownFor'' =
        (if truthy (field actor ''knownFor'') then field actor ''knownFor'' else Some (JArr []))
    \<and> map_of ent ''isActive'' =
        (if field actor ''isActive'' = None \<or> field actor ''isActive'' = Some JNull
         then Some (JBool True) else field actor ''isActive'')
    \<and> (\<forall>i old ps k v w2.
          reliable w2 \<and> keyed w2 \<and> i \<noteq> [] \<and> map_of (items w2) i = Some old
          \<and> distinct (map fst ps) \<and> map_of ps k = Some v
          \<and> k \<notin> {''id'', ''createdAt'', ''updatedAt''}
          \<longrightarrow> (\<exists>merged. map_of (items (snd (actors_update i (JObj ps) w2))) i = Some merged
                 \<and> map_of merged k = Some v))"
proof -
  from actors_create_201 [OF assms] obtain now w1
    where r: "r = success 201 (JObj (new_actor actor now))"
      and t: "truthy (field actor ''id'')" "truthy (field actor ''name'')"
      and p: "send_put (new_actor actor now) w1 = (Inr (), w')"
    by blast
  let ?ent = "new_actor actor now"
  from send_put_done [OF p] obtain s where s: "map_of (items w') s = Some ?ent"
    by blast
  have upd: "\<exists>merged. map_of (items (snd (actors_update i (JObj ps) w2))) i = Some merged
        \<and> map_of merged k = Some v"
    if "reliable w2" "keyed w2" "i \<noteq> []" "map_of (items w2) i = Some old"
      "distinct (map fst ps)" "map_of ps k = Some v" "k \<notin> {''id'', ''createdAt'', ''updatedAt''}"
    for i old ps k v w2
  proof -
    have oid: "map_of old ''id'' = Some (JStr i)"
      using keyed_lookup [OF that(2,4)] .
    note u = actors_update_existing [OF that(1,3,4) oid, of ps]
    let ?m = "updated_actor old ps (now_iso (after (GetCommand (JStr i)) w2))"
    have "map_of (items (snd (actors_update i (JObj ps) w2))) i = Some ?m"
      by (simp add: u update_conv')
    moreover have "map_of ?m k = Some v"
      using that(6,7) by (simp add: map_of_updated_actor [OF that(5)])
    ultimately show ?thesis by blast
  qed
  have all: "\<forall>i old ps k v w2.
          reliable w2 \<and> keyed w2 \<and> i \<noteq> [] \<and> map_of (items w2) i = Some old
          \<and> distinct (map fst ps) \<and> map_of ps k = Some v
          \<and> k \<notin> {''id'', ''createdAt'', ''updatedAt''}
          \<longrightarrow> (\<exists>merged. map_of (items (snd (actors_update i (JObj ps) w2))) i = Some merged
                 \<and> map_of merged k = Some v)"
    by (intro allI impI) (elim conjE, rule upd)
  have b: "body r = Stringified (JObj ?ent)"
    by (simp add: r success_def)
  have kf: "map_of ?ent ''knownFor'' =
        (if truthy (field actor ''knownFor'') then field actor ''knownFor'' else Some (JArr []))"
    by (simp add: map_of_new_actor js_or_def)
  have ia: "map_of ?ent ''isActive'' =
        (if field actor ''isActive'' = None \<or> field actor ''isActive'' = Some JNull
         then Some (JBool True) else field actor ''isActive'')"
    by (simp add: map_of_new_actor nullish_def)
  show ?thesis
    by (intro exI [of _ ?ent] exI [of _ s] conjI)
      (fact b s new_actor_keys new_actor_always [OF t] kf ia all)+
qed

text \<open>Claim C10: the statement above at a concrete create and a concrete update.\<close>

theorem actors_create_schema_only_witness:
  "actors_create (JObj actor_extra) quiet_world
     = (fst (actors_create (JObj actor_extra) quiet_world),
        snd (actors_create (JObj actor_extra) quiet_world))
 \<and> statusCode (fst (actors_create (JObj actor_extra) quiet_world)) = 201
 \<and> map_of actor_extra ''agent'' = Some (JStr ''Z'')
 \<and> (\<exists>ent s. body (fst (actors_create (JObj actor_extra) quiet_world)) = Stringified (JObj ent)
       \<and> map_of (items (snd (actors_create (JObj actor_extra) quiet_world))) s = Some ent
       \<and> fst ` set ent \<subseteq> set actor_schema)
 \<and> (reliable cast_world \<and> keyed cast_world \<and> ''a1'' \<noteq> []
      \<and> map_of (items cast_world) ''a1'' = Some stored_a1
      \<and> distinct (map fst actor_patch) \<and> map_of actor_patch ''agent'' = Some (JStr ''Z'')
      \<and> ''agent'' \<notin> {''id'', ''createdAt'', ''updatedAt''})
 \<and> (\<exists>merged.
       map_of (items (snd (actors_update ''a1'' (JObj actor_patch) cast_world))) ''a1'' = Some merged
       \<and> map_of merged ''agent'' = Some (JStr ''Z''))"
proof -
  have h1: "actors_create (JObj actor_extra) quiet_world
     = (fst (actors_create (JObj actor_extra) quiet_world),
        snd (actors_create (JObj actor_extra) quiet_world))"
    by simp
  have h2: "statusCode (fst (actors_create (JObj actor_extra) quiet_world)) = 201"
    by (simp add: quiet_world_def actor_extra_def begin_call_def send_get_def send_put_def
        now_iso_def actors_create_def success_def new_actor_def Let_def
        js_or_def nullish_def)
  have h3: "map_of actor_extra ''agent'' = Some (JStr ''Z'')"
    by (simp add: actor_extra_def)
  have p: "reliable cast_world \<and> keyed cast_world \<and> ''a1'' \<noteq> []
      \<and> map_of (items cast_world) ''a1'' = Some stored_a1
      \<and> distinct (map fst actor_patch) \<and> map_of actor_patch ''agent'' = Some (JStr ''Z'')
      \<and> ''agent'' \<notin> {''id'', ''createdAt'', ''updatedAt''}"
    by (simp add: reliable_def keyed_def cast_world_def stored_a1_def actor_patch_def)
  from actors_create_schema_only [OF h1 h2] obtain ent s
    where e: "body (fst (actors_create (JObj actor_extra) quiet_world)) = Stringified (JObj ent)"
      "map_of (items (snd (actors_create (JObj actor_extra) quiet_world))) s = Some ent"
      "fst ` set ent \<subseteq> set actor_schema"
      and u: "\<forall>i old ps k v w2.
          reliable w2 \<and> keyed w2 \<and> i \<noteq> [] \<and> map_of (items w2) i = Some old
          \<and> distinct (map fst ps) \<and> map_of ps k = Some v
          \<and> k \<notin> {''id'', ''createdAt'', ''updatedAt''}
          \<longrightarrow> (\<exists>merged. map_of (items (snd (actors_update i (JObj ps) w2))) i = Some merged
                 \<and> map_of merged k = Some v)"
    by blast
  from e have c: "\<exists>ent s. body (fst (actors_create (JObj actor_extra) quiet_world)) = Stringified (JObj ent)
       \<and> map_of (items (snd (actors_create (JObj actor_extra) quiet_world))) s = Some ent
       \<and> fst ` set ent \<subseteq> set actor_schema"
    by blast
  note m = u [rule_format, OF p]
  from h1 h2 h3 c p m show ?thesis
    by (intro conjI) blast+
qed

end
